theory Spec2Isabelle
  imports Complex_Main "HOL-Library.Multiset"
begin

section \<open>JavaScript numbers\<close>

text \<open>
  A JavaScript number is an IEEE 754 double: a finite value \<open>Fin x\<close> (zero is taken as
  the positive zero), one of the two infinities, or \<open>NaN\<close>. The result of an arithmetic
  operation is the exact result rounded to the nearest double, ties to the even
  significand; a result of magnitude \<open>2 ^ 1024\<close> or more after rounding is an infinity.
\<close>

datatype jsnum = Fin real | PosInf | NegInf | NaN

definition pow2 :: "int \<Rightarrow> real" where
  "pow2 e = (if 0 \<le> e then 2 ^ nat e else 1 / 2 ^ nat (- e))"

text \<open>The nearest integer, a tie going to the even one.\<close>

definition rne :: "real \<Rightarrow> int" where
  "rne q =
     (let n = \<lfloor>q\<rfloor>; f = q - of_int n
      in if f < 1 / 2 then n
         else if 1 / 2 < f then n + 1
         else if even n then n else n + 1)"

text \<open>
  A double of binary exponent \<open>e\<close> is a multiple of \<open>2 ^ (e - 52)\<close>; the exponent is at
  least \<open>-1022\<close> (below it the doubles are subnormal).
\<close>

definition round_double :: "real \<Rightarrow> jsnum" where
  "round_double x =
     (if x = 0 then Fin 0
      else
        let e = max \<lfloor>log 2 \<bar>x\<bar>\<rfloor> (- 1022);
            u = pow2 (e - 52);
            r = of_int (rne (\<bar>x\<bar> / u)) * u
        in if 2 ^ 1024 \<le> r then (if 0 < x then PosInf else NegInf)
           else Fin (if 0 < x then r else - r))"

definition double_add :: "real \<Rightarrow> real \<Rightarrow> jsnum" where
  "double_add x y = round_double (x + y)"

definition double_mul :: "real \<Rightarrow> real \<Rightarrow> jsnum" where
  "double_mul x y = round_double (x * y)"

definition double_div :: "real \<Rightarrow> real \<Rightarrow> jsnum" where
  "double_div x y = round_double (x / y)"

definition double_sqrt :: "real \<Rightarrow> jsnum" where
  "double_sqrt x = round_double (sqrt x)"

text \<open>A decimal literal of the source denotes the double nearest to it.\<close>

definition js_literal :: "real \<Rightarrow> jsnum" where
  "js_literal x = round_double x"

fun js_add :: "jsnum \<Rightarrow> jsnum \<Rightarrow> jsnum" where
  "js_add NaN _ = NaN"
| "js_add _ NaN = NaN"
| "js_add (Fin x) (Fin y) = double_add x y"
| "js_add PosInf NegInf = NaN"
| "js_add NegInf PosInf = NaN"
| "js_add PosInf _ = PosInf"
| "js_add _ PosInf = PosInf"
| "js_add NegInf _ = NegInf"
| "js_add _ NegInf = NegInf"

fun js_neg :: "jsnum \<Rightarrow> jsnum" where
  "js_neg NaN = NaN"
| "js_neg (Fin x) = Fin (- x)"
| "js_neg PosInf = NegInf"
| "js_neg NegInf = PosInf"

definition js_sub :: "jsnum \<Rightarrow> jsnum \<Rightarrow> jsnum" where
  "js_sub a b = js_add a (js_neg b)"

text \<open>\<open>Math.pow(x, 2)\<close>: for the exponent 2 the result is the product of \<open>x\<close> with itself.\<close>

fun js_pow2 :: "jsnum \<Rightarrow> jsnum" where
  "js_pow2 NaN = NaN"
| "js_pow2 (Fin x) = double_mul x x"
| "js_pow2 PosInf = PosInf"
| "js_pow2 NegInf = PosInf"

text \<open>\<open>Math.sqrt\<close>.\<close>

fun js_sqrt :: "jsnum \<Rightarrow> jsnum" where
  "js_sqrt NaN = NaN"
| "js_sqrt (Fin x) = (if x < 0 then NaN else double_sqrt x)"
| "js_sqrt PosInf = PosInf"
| "js_sqrt NegInf = NaN"

text \<open>The operator \<open>/\<close>: \<open>0 / 0\<close> is \<open>NaN\<close>, a non-zero value over zero is an infinity.\<close>

fun js_div :: "jsnum \<Rightarrow> jsnum \<Rightarrow> jsnum" where
  "js_div NaN _ = NaN"
| "js_div _ NaN = NaN"
| "js_div (Fin x) (Fin y) =
     (if y \<noteq> 0 then double_div x y
      else if x = 0 then NaN
      else if 0 < x then PosInf else NegInf)"
| "js_div (Fin x) _ = Fin 0"
| "js_div PosInf (Fin y) = (if 0 \<le> y then PosInf else NegInf)"
| "js_div NegInf (Fin y) = (if 0 \<le> y then NegInf else PosInf)"
| "js_div _ _ = NaN"

text \<open>The operator \<open><\<close>: every comparison with \<open>NaN\<close> is false.\<close>

fun js_lt :: "jsnum \<Rightarrow> jsnum \<Rightarrow> bool" where
  "js_lt NaN _ = False"
| "js_lt _ NaN = False"
| "js_lt (Fin x) (Fin y) = (x < y)"
| "js_lt NegInf NegInf = False"
| "js_lt NegInf _ = True"
| "js_lt PosInf _ = False"
| "js_lt (Fin x) PosInf = True"
| "js_lt (Fin x) NegInf = False"

section \<open>Data model\<close>

text \<open>
  The interfaces of \<open>types/interfaces\<close> as the analyzers use them. The activity type is
  the closed union of the data model; an absent \<open>programId\<close>, \<open>value\<close> or
  \<open>description\<close> is \<open>None\<close>; a timestamp is a count of milliseconds, an integer
  that a double holds exactly.
\<close>

datatype ActivityType =
  Transfer | Swap | Mint | Staking | Trading | Lending | AccountCreation | Other

record WalletActivity =
  a_signature :: string
  a_type :: ActivityType
  a_programId :: "string option"
  a_token :: string
  a_value :: "jsnum option"
  a_timestamp :: int
  a_success :: bool
  a_description :: "string option"

record TransactionPattern =
  patternType :: string
  confidence :: jsnum
  description :: string

section \<open>Pattern analyzer (patternAnalyzer.ts)\<close>

definition MINIMUM_TRANSACTIONS :: nat where "MINIMUM_TRANSACTIONS = 5"
definition MINIMUM_SWAPS :: nat where "MINIMUM_SWAPS = 3"
definition MINIMUM_STAKING_ACTIONS :: nat where "MINIMUM_STAKING_ACTIONS = 3"
definition DCA_DEVIATION_THRESHOLD :: jsnum where "DCA_DEVIATION_THRESHOLD = js_literal (3 / 10)"

definition CONFIDENCE_LOW :: jsnum where "CONFIDENCE_LOW = js_literal (5 / 10)"
definition CONFIDENCE_MEDIUM :: jsnum where "CONFIDENCE_MEDIUM = js_literal (7 / 10)"
definition CONFIDENCE_HIGH :: jsnum where "CONFIDENCE_HIGH = js_literal (8 / 10)"
definition CONFIDENCE_VERY_HIGH :: jsnum where "CONFIDENCE_VERY_HIGH = js_literal (9 / 10)"

definition PATTERNS_INSUFFICIENT_DATA :: TransactionPattern where
  "PATTERNS_INSUFFICIENT_DATA =
     \<lparr>patternType = ''insufficient_data'', confidence = Fin 0,
      description = ''Not enough transaction history to establish patterns.''\<rparr>"

definition PATTERNS_GENERAL :: TransactionPattern where
  "PATTERNS_GENERAL =
     \<lparr>patternType = ''general'', confidence = CONFIDENCE_LOW,
      description = ''No specific pattern detected in transaction history.''\<rparr>"

definition PATTERNS_DCA :: TransactionPattern where
  "PATTERNS_DCA =
     \<lparr>patternType = ''dca'', confidence = CONFIDENCE_MEDIUM,
      description = ''Regular token purchases suggest a dollar-cost averaging strategy.''\<rparr>"

definition PATTERNS_LENDING :: TransactionPattern where
  "PATTERNS_LENDING =
     \<lparr>patternType = ''lending_active'', confidence = CONFIDENCE_VERY_HIGH,
      description = ''Active lending positions detected. Monitor collateral ratios to avoid liquidation.''\<rparr>"

definition PATTERNS_YIELD_FARMING :: TransactionPattern where
  "PATTERNS_YIELD_FARMING =
     \<lparr>patternType = ''yield_farming'', confidence = CONFIDENCE_HIGH,
      description = ''Multiple staking activities suggest active yield farming strategy.''\<rparr>"

text \<open>
  \<open>groupActivitiesByType\<close>: the \<open>reduce\<close> runs over the activities from the left; a type
  seen for the first time gets an empty group, and the activity is pushed onto the group
  of its type.
\<close>

definition group_step ::
  "WalletActivity \<Rightarrow> (ActivityType \<rightharpoonup> WalletActivity list) \<Rightarrow> (ActivityType \<rightharpoonup> WalletActivity list)" where
  "group_step activity groups =
     (let t = a_type activity;
          groups1 = (if groups t = None then groups(t \<mapsto> []) else groups)
      in case groups1 t of
           Some g \<Rightarrow> groups1(t \<mapsto> g @ [activity])
         | None \<Rightarrow> groups1)"

definition groupActivitiesByType ::
  "WalletActivity list \<Rightarrow> (ActivityType \<rightharpoonup> WalletActivity list)" where
  "groupActivitiesByType activities = fold group_step activities Map.empty"

text \<open>\<open>hasActivities\<close> and \<open>hasMinimumActivities\<close> take a group that may be undefined.\<close>

definition hasActivities :: "WalletActivity list option \<Rightarrow> bool" where
  "hasActivities activities =
     (case activities of None \<Rightarrow> False | Some g \<Rightarrow> length g > 0)"

definition hasMinimumActivities :: "WalletActivity list option \<Rightarrow> nat \<Rightarrow> bool" where
  "hasMinimumActivities activities minimum =
     (case activities of None \<Rightarrow> False | Some g \<Rightarrow> length g \<ge> minimum)"

text \<open>
  The loop of \<open>detectDCAPattern\<close> that pushes
  \<open>sortedSwaps[i - 1].timestamp - sortedSwaps[i].timestamp\<close> for \<open>i = 1, 2, ...\<close>.
\<close>

fun timeGaps :: "WalletActivity list \<Rightarrow> jsnum list" where
  "timeGaps (a # b # rest) =
     js_sub (Fin (of_int (a_timestamp a))) (Fin (of_int (a_timestamp b))) # timeGaps (b # rest)"
| "timeGaps _ = []"

text \<open>\<open>values.reduce((sum, value) => sum + value, 0)\<close> and the sum of squared deviations.\<close>

definition sum_values :: "jsnum list \<Rightarrow> jsnum" where
  "sum_values vs = fold (\<lambda>v s. js_add s v) vs (Fin 0)"

definition sum_sq_dev :: "jsnum \<Rightarrow> jsnum list \<Rightarrow> jsnum" where
  "sum_sq_dev mean vs = fold (\<lambda>v s. js_add s (js_pow2 (js_sub v mean))) vs (Fin 0)"

text \<open>\<open>calculateStats\<close> returns the pair (mean, standardDeviation).\<close>

definition calculateStats :: "jsnum list \<Rightarrow> jsnum \<times> jsnum" where
  "calculateStats vs =
     (let mean = js_div (sum_values vs) (Fin (real (length vs)));
          variance = js_div (sum_sq_dev mean vs) (Fin (real (length vs)))
      in (mean, js_sqrt variance))"

text \<open>
  \<open>[...swaps].sort((a, b) => b.timestamp - a.timestamp)\<close>: the sort of a copy, stable,
  newest first.
\<close>

definition sortedSwaps :: "WalletActivity list \<Rightarrow> WalletActivity list" where
  "sortedSwaps swaps = sort_key (\<lambda>a. - a_timestamp a) swaps"

definition variationCoefficient :: "WalletActivity list \<Rightarrow> jsnum" where
  "variationCoefficient swaps =
     (let (mean, standardDeviation) = calculateStats (timeGaps (sortedSwaps swaps))
      in js_div standardDeviation mean)"

text \<open>\<open>detectDCAPattern\<close> pushes onto \<open>patterns\<close>; the model returns the new list.\<close>

definition detectDCAPattern ::
  "WalletActivity list \<Rightarrow> TransactionPattern list \<Rightarrow> TransactionPattern list" where
  "detectDCAPattern swaps patterns =
     (if length swaps < MINIMUM_SWAPS then patterns
      else if js_lt (variationCoefficient swaps) DCA_DEVIATION_THRESHOLD
           then patterns @ [PATTERNS_DCA]
           else patterns)"

definition analyzeTransactionPatterns :: "WalletActivity list \<Rightarrow> TransactionPattern list" where
  "analyzeTransactionPatterns activities =
     (if length activities < MINIMUM_TRANSACTIONS then [PATTERNS_INSUFFICIENT_DATA]
      else
        let activityGroups = groupActivitiesByType activities;
            patterns0 = detectDCAPattern
                          (case activityGroups Swap of Some g \<Rightarrow> g | None \<Rightarrow> []) [];
            patterns1 = (if hasActivities (activityGroups Lending)
                         then patterns0 @ [PATTERNS_LENDING] else patterns0);
            patterns2 = (if hasMinimumActivities (activityGroups Staking) MINIMUM_STAKING_ACTIONS
                         then patterns1 @ [PATTERNS_YIELD_FARMING] else patterns1)
        in if length patterns2 > 0 then patterns2 else [PATTERNS_GENERAL])"

text \<open>A confidence score is well defined when it is a number of the unit interval.\<close>

fun well_defined_confidence :: "jsnum \<Rightarrow> bool" where
  "well_defined_confidence (Fin c) = (0 \<le> c \<and> c \<le> 1)"
| "well_defined_confidence _ = False"

subsection \<open>The regularity test in the words of the specification\<close>

text \<open>
  The swaps' timestamps sorted descending, the gaps between neighbours, and the population
  standard deviation of the gaps divided by their mean, as numbers: the quotient has a
  value only when the mean is not zero; it is then compared with three tenths.
\<close>

fun consecutive_gaps :: "int list \<Rightarrow> real list" where
  "consecutive_gaps (x # y # rest) = real_of_int (x - y) # consecutive_gaps (y # rest)"
| "consecutive_gaps _ = []"

definition population_mean :: "real list \<Rightarrow> real" where
  "population_mean xs = sum_list xs / real (length xs)"

definition population_sd :: "real list \<Rightarrow> real" where
  "population_sd xs =
     sqrt (sum_list (map (\<lambda>x. (x - population_mean xs)\<^sup>2) xs) / real (length xs))"

definition dca_regular :: "WalletActivity list \<Rightarrow> bool" where
  "dca_regular swaps =
     (let gaps = consecutive_gaps (rev (sort (map a_timestamp swaps)))
      in population_mean gaps \<noteq> 0 \<and> population_sd gaps / population_mean gaps < 3 / 10)"

text \<open>
  The same test in the arithmetic of doubles: every difference, sum, square, quotient
  and root is rounded, the sums run over the gaps from the first to the last, and the
  quotient is compared with the double nearest to three tenths.
\<close>

fun double_gaps :: "int list \<Rightarrow> jsnum list" where
  "double_gaps (x # y # rest) = js_sub (Fin (of_int x)) (Fin (of_int y)) # double_gaps (y # rest)"
| "double_gaps _ = []"

definition double_sum :: "jsnum list \<Rightarrow> jsnum" where
  "double_sum xs = foldl js_add (Fin 0) xs"

definition double_mean :: "jsnum list \<Rightarrow> jsnum" where
  "double_mean xs = js_div (double_sum xs) (Fin (real (length xs)))"

definition double_sd :: "jsnum list \<Rightarrow> jsnum" where
  "double_sd xs =
     js_sqrt (js_div (double_sum (map (\<lambda>x. js_pow2 (js_sub x (double_mean xs))) xs))
                     (Fin (real (length xs))))"

definition dca_regular_double :: "WalletActivity list \<Rightarrow> bool" where
  "dca_regular_double swaps =
     (let gaps = double_gaps (rev (sort (map a_timestamp swaps)))
      in js_lt (js_div (double_sd gaps) (double_mean gaps)) (js_literal (3 / 10)))"

section \<open>Protocol identifier (services/transaction)\<close>

text \<open>The table \<open>KNOWN_PROGRAMS\<close> of the configuration: protocol name and program address.\<close>

definition KNOWN_PROGRAMS :: "(string \<times> string) list" where
  "KNOWN_PROGRAMS =
     [(''RAYDIUM_SWAP'', ''675kPX9MHTjS2zt1qfr1NYHuzeLXfQM9H24wFSUt1Mp8''),
      (''ORCA_SWAP'', ''9W959DqEETiGZocYWCQPaJ6sBmUzgfxXfqGeTEdp3aQP''),
      (''JUPITER_AGGREGATOR'', ''JUP6LkbZbjS1jKKwapdHNy74zcZ3tLUZoi5QNyVTaV4''),
      (''SERUM_DEX_V3'', ''9xQeWvG816bUx9EPjHmaT23yvVM2ZWbrrpZb9PusVFin''),
      (''FLUXBEAM'', ''FLUXubRmkEi2q6K3Y9kBPg9248ggaZVsoSFhtJHSrm1X''),
      (''MARINADE_STAKING'', ''MarBmsSgKXdrN1egZf5sqe1TMai9K1rChYNDJgjq7aD''),
      (''SOLEND'', ''So1endDq2YkqhipRh3WViPa8hdiSpxWy6z3Z6tMCpAo''),
      (''MANGO_MARKETS'', ''mv3ekLzLbnVPNxjSKvqBpU3ZeZXPQdEC3bp5MDEBG68''),
      (''TOKEN_PROGRAM'', ''TokenkegQfeZyiNwAJbNbGKPFXCWuBvf9Ss623VQ5DA''),
      (''ASSOCIATED_TOKEN_PROGRAM'', ''ATokenGPvbdGVxr1b2hvZbsiqW5xWH25efTNsLJA8knL''),
      (''METAPLEX'', ''metaqbxxUerdq28cj1RbAWkYQm3ybzjb6a8bt518x1s'')]"

text \<open>
  Modelled from the spec: \<open>identifyProtocol\<close> of \<open>services/transaction\<close> is not among the
  sources. It looks the program address up in the table of known programs by exact
  match and returns the name of the entry, or \<open>Unknown\<close> when no entry matches or the
  address is absent.

  The analyzers below take the identifier as a parameter \<open>idp\<close>, so that what is proved
  of them holds for every such function; this one serves at the concrete inputs.
\<close>

definition identifyProtocol :: "string option \<Rightarrow> string" where
  "identifyProtocol programId =
     (case programId of
        None \<Rightarrow> ''Unknown''
      | Some pid \<Rightarrow>
          (case find (\<lambda>entry. snd entry = pid) KNOWN_PROGRAMS of
             Some entry \<Rightarrow> fst entry
           | None \<Rightarrow> ''Unknown''))"

section \<open>Strategy recommender (recommendStrategy.ts)\<close>

datatype RiskLevel = low | medium | high

record Strategy =
  strategy :: string
  s_description :: string
  riskLevel :: RiskLevel
  potentialReturn :: string

datatype RiskProfile = conservative | moderate | aggressive

record WalletProfile =
  address :: string
  riskProfile :: RiskProfile
  portfolioDiversification :: real
  activityCount :: nat

definition STRATEGIES_BEGINNER :: Strategy where
  "STRATEGIES_BEGINNER =
     \<lparr>strategy = ''Start DeFi'',
      s_description = ''Begin with small positions in established protocols.'',
      riskLevel = low, potentialReturn = ''3-5% APY''\<rparr>"

definition STRATEGIES_STAKING_SOL :: Strategy where
  "STRATEGIES_STAKING_SOL =
     \<lparr>strategy = ''Staking SOL'',
      s_description = ''Stake SOL with a validator for steady returns.'',
      riskLevel = low, potentialReturn = ''5-7% APY''\<rparr>"

definition STRATEGIES_LIQUID_STAKING :: Strategy where
  "STRATEGIES_LIQUID_STAKING =
     \<lparr>strategy = ''Liquid Staking'',
      s_description = ''Use Marinade Finance for liquid staking to earn staking rewards while maintaining liquidity.'',
      riskLevel = low, potentialReturn = ''6-8% APY''\<rparr>"

definition STRATEGIES_SUPPLY_STABLECOINS :: Strategy where
  "STRATEGIES_SUPPLY_STABLECOINS =
     \<lparr>strategy = ''Supply Stablecoins'',
      s_description = ''Supply USDC or USDT to Solend to earn lending interest.'',
      riskLevel = medium, potentialReturn = ''8-12% APY''\<rparr>"

definition STRATEGIES_DIVERSIFIED_LP :: Strategy where
  "STRATEGIES_DIVERSIFIED_LP =
     \<lparr>strategy = ''Diversified LP'',
      s_description = ''Provide liquidity to stable pairs on Raydium or Orca.'',
      riskLevel = medium, potentialReturn = ''10-20% APY''\<rparr>"

definition STRATEGIES_LEVERAGED_FARMING :: Strategy where
  "STRATEGIES_LEVERAGED_FARMING =
     \<lparr>strategy = ''Leveraged Farming'',
      s_description = ''Use leverage on Solend or Mango Markets for amplified yields.'',
      riskLevel = high, potentialReturn = ''20-40% APY with risk''\<rparr>"

definition STRATEGIES_PERPETUAL_TRADING :: Strategy where
  "STRATEGIES_PERPETUAL_TRADING =
     \<lparr>strategy = ''Perpetual Trading'',
      s_description = ''Trade perpetual futures on Mango Markets or Drift Protocol.'',
      riskLevel = high, potentialReturn = ''Variable''\<rparr>"

text \<open>
  The two tables. The source compares a mapped strategy with a candidate by \<open>===\<close>, the
  identity of the objects of \<open>STRATEGIES\<close>; the seven objects differ in their names, so
  that equality of the records is the identity of the objects.
\<close>

definition PROTOCOL_STRATEGY_MAP :: "(string \<times> Strategy) list" where
  "PROTOCOL_STRATEGY_MAP =
     [(''MARINADE_STAKING'', STRATEGIES_LIQUID_STAKING),
      (''SOLEND'', STRATEGIES_SUPPLY_STABLECOINS),
      (''MANGO_MARKETS'', STRATEGIES_PERPETUAL_TRADING)]"

definition RISK_PROFILE_STRATEGIES :: "(RiskProfile \<times> Strategy list) list" where
  "RISK_PROFILE_STRATEGIES =
     [(conservative, [STRATEGIES_STAKING_SOL, STRATEGIES_LIQUID_STAKING]),
      (moderate, [STRATEGIES_SUPPLY_STABLECOINS, STRATEGIES_DIVERSIFIED_LP]),
      (aggressive, [STRATEGIES_LEVERAGED_FARMING, STRATEGIES_PERPETUAL_TRADING])]"

text \<open>
  \<open>extractUsedProtocols\<close>: a program id counts when it is present, not the empty string
  and not \<open>Unknown\<close>.
\<close>

definition extractUsedProtocols ::
  "(string option \<Rightarrow> string) \<Rightarrow> WalletActivity list \<Rightarrow> string set" where
  "extractUsedProtocols idp activities =
     fold (\<lambda>activity protocolSet.
             (case a_programId activity of
                None \<Rightarrow> protocolSet
              | Some pid \<Rightarrow>
                  if pid \<noteq> [] \<and> pid \<noteq> ''Unknown''
                  then insert (idp (a_programId activity)) protocolSet
                  else protocolSet))
          activities {}"

definition shouldExclude :: "string set \<Rightarrow> Strategy \<Rightarrow> bool" where
  "shouldExclude usedProtocols candidate =
     list_ex (\<lambda>entry. fst entry \<in> usedProtocols \<and> snd entry = candidate) PROTOCOL_STRATEGY_MAP"

definition baseStrategies :: "RiskProfile \<Rightarrow> Strategy list" where
  "baseStrategies rp =
     (case map_of RISK_PROFILE_STRATEGIES rp of
        Some pair \<Rightarrow> pair
      | None \<Rightarrow> [STRATEGIES_SUPPLY_STABLECOINS, STRATEGIES_DIVERSIFIED_LP])"

definition generateRecommendations :: "RiskProfile \<Rightarrow> string set \<Rightarrow> Strategy list" where
  "generateRecommendations rp usedProtocols =
     fold (\<lambda>candidate recommendations.
             if \<not> shouldExclude usedProtocols candidate
             then recommendations @ [candidate] else recommendations)
          (baseStrategies rp) []"

definition recommendStrategies ::
  "(string option \<Rightarrow> string) \<Rightarrow> WalletActivity list \<Rightarrow> WalletProfile option \<Rightarrow> Strategy list" where
  "recommendStrategies idp activities profile =
     (if length activities = 0 then [STRATEGIES_BEGINNER]
      else
        let rp = (case profile of None \<Rightarrow> moderate | Some p \<Rightarrow> riskProfile p);
            usedProtocols = extractUsedProtocols idp activities
        in generateRecommendations rp usedProtocols)"

section \<open>DeFi position synthesizer (defiAnalyzer.ts)\<close>

record DeFiPosition =
  p_protocol :: string
  p_type :: string
  p_tokenA :: "string option"
  p_value :: "jsnum option"
  p_apy :: "real option"
  p_timestamp :: int

text \<open>An entry of the wallet cache: the activities, the positions once derived, the rest.\<close>

record CacheEntry =
  ce_activities :: "WalletActivity list option"
  ce_defiPositions :: "DeFiPosition list option"
  ce_profile :: "WalletProfile option"

text \<open>
  What the synthesizer reads and writes besides its argument: the wallet cache, the
  random numbers and the clock. \<open>random_source\<close> and \<open>clock\<close> list the results of the
  successive calls of \<open>Math.random()\<close> and \<open>Date.now()\<close>; \<open>cache_writes\<close> records the
  calls of \<open>walletCache.set\<close> in their order.
\<close>

record World =
  cache :: "string \<rightharpoonup> CacheEntry"
  cache_writes :: "(string \<times> CacheEntry) list"
  random_source :: "nat \<Rightarrow> real"
  random_calls :: nat
  clock :: "nat \<Rightarrow> int"
  clock_calls :: nat

definition Math_random :: "World \<Rightarrow> real \<times> World" where
  "Math_random w = (random_source w (random_calls w), w\<lparr>random_calls := random_calls w + 1\<rparr>)"

definition Date_now :: "World \<Rightarrow> int \<times> World" where
  "Date_now w = (clock w (clock_calls w), w\<lparr>clock_calls := clock_calls w + 1\<rparr>)"

text \<open>
  Modelled from the spec: \<open>walletCache\<close> of \<open>utils/cache\<close> is not among the sources. It is
  a store from wallet address to entry: \<open>get\<close> returns the entry, or undefined on a miss,
  and changes nothing.
\<close>

definition walletCache_get :: "World \<Rightarrow> string \<Rightarrow> CacheEntry option" where
  "walletCache_get w publicKey = cache w publicKey"

text \<open>
  Modelled from the spec: \<open>walletCache.set\<close>, of the same missing module. The entry
  passed replaces the entry of the key; the call is recorded in \<open>cache_writes\<close>.
\<close>

definition walletCache_set :: "World \<Rightarrow> string \<Rightarrow> CacheEntry \<Rightarrow> World" where
  "walletCache_set w publicKey entry =
     w\<lparr>cache := (cache w)(publicKey \<mapsto> entry),
       cache_writes := cache_writes w @ [(publicKey, entry)]\<rparr>"

definition APY_RANGES_STAKING :: "real \<times> real" where "APY_RANGES_STAKING = (5, 8)"
definition APY_RANGES_LENDING :: "real \<times> real" where "APY_RANGES_LENDING = (3, 7)"
definition APY_RANGES_LIQUIDITY :: "real \<times> real" where "APY_RANGES_LIQUIDITY = (8, 12)"

definition ONE_DAY_MS :: int where "ONE_DAY_MS = 24 * 60 * 60 * 1000"

text \<open>
  \<open>generateRandomApy\<close>: the APY is the number that the expression
  \<open>range.min + Math.random() * (range.max - range.min)\<close> denotes.
\<close>

definition generateRandomApy :: "real \<times> real \<Rightarrow> World \<Rightarrow> real \<times> World" where
  "generateRandomApy apyRange w =
     (let (r, w1) = Math_random w
      in (fst apyRange + r * (snd apyRange - fst apyRange), w1))"

definition getActivitiesByType :: "WalletActivity list \<Rightarrow> ActivityType \<Rightarrow> WalletActivity list" where
  "getActivitiesByType activities t = filter (\<lambda>activity. a_type activity = t) activities"

text \<open>
  \<open>activity.value || 0\<close>: the value, or 0 when it is absent, \<open>NaN\<close> or zero.
\<close>

definition value_or_zero :: "WalletActivity \<Rightarrow> jsnum" where
  "value_or_zero activity =
     (case a_value activity of
        None \<Rightarrow> Fin 0
      | Some NaN \<Rightarrow> Fin 0
      | Some v \<Rightarrow> v)"

text \<open>\<open>activities.reduce((sum, activity) => sum + (activity.value || 0), 0)\<close>.\<close>

definition calculateTotalValue :: "WalletActivity list \<Rightarrow> jsnum" where
  "calculateTotalValue activities =
     fold (\<lambda>activity sum. js_add sum (value_or_zero activity)) activities (Fin 0)"

text \<open>
  The \<open>map\<close> of the staking pass builds one position per activity, left to right, and
  draws one random number for each.
\<close>

fun stakingPositions ::
  "(string option \<Rightarrow> string) \<Rightarrow> WalletActivity list \<Rightarrow> World \<Rightarrow> DeFiPosition list \<times> World" where
  "stakingPositions idp [] w = ([], w)"
| "stakingPositions idp (activity # rest) w =
     (let (apy, w1) = generateRandomApy APY_RANGES_STAKING w;
          (ps, w2) = stakingPositions idp rest w1
      in (\<lparr>p_protocol = idp (a_programId activity), p_type = ''Staking'',
           p_tokenA = Some (a_token activity), p_value = a_value activity,
           p_apy = Some apy, p_timestamp = a_timestamp activity\<rparr> # ps, w2))"

definition processStakingPositions ::
  "(string option \<Rightarrow> string) \<Rightarrow> WalletActivity list \<Rightarrow> World \<Rightarrow> DeFiPosition list \<times> World" where
  "processStakingPositions idp activities w =
     stakingPositions idp (getActivitiesByType activities Staking) w"

text \<open>
  The trading pass. \<open>Date.now()\<close> is read once, after the check that there is a swap or
  FLUXBEAM activity; \<open>Math.max\<close> is applied to the timestamps of a non-empty list.
\<close>

definition processTradingPositions ::
  "(string option \<Rightarrow> string) \<Rightarrow> WalletActivity list \<Rightarrow> World \<Rightarrow> DeFiPosition list \<times> World" where
  "processTradingPositions idp activities w =
     (let swapActivities =
            filter (\<lambda>activity. a_type activity = Swap
                      \<or> idp (a_programId activity) = ''FLUXBEAM'') activities
      in if length swapActivities = 0 then ([], w)
         else
           let (now, w1) = Date_now w;
               recentSwaps =
                 filter (\<lambda>activity. now - a_timestamp activity < ONE_DAY_MS) swapActivities
           in case recentSwaps of
                [] \<Rightarrow> ([], w1)
              | first # others \<Rightarrow>
                  ([\<lparr>p_protocol = ''FLUXBEAM'', p_type = ''Trading'', p_tokenA = None,
                     p_value = Some (calculateTotalValue recentSwaps), p_apy = None,
                     p_timestamp = fold max (map a_timestamp others) (a_timestamp first)\<rparr>],
                   w1))"

fun lendingPositions ::
  "(string option \<Rightarrow> string) \<Rightarrow> WalletActivity list \<Rightarrow> World \<Rightarrow> DeFiPosition list \<times> World" where
  "lendingPositions idp [] w = ([], w)"
| "lendingPositions idp (activity # rest) w =
     (let (apy, w1) = generateRandomApy APY_RANGES_LENDING w;
          (ps, w2) = lendingPositions idp rest w1
      in (\<lparr>p_protocol = idp (a_programId activity), p_type = ''Lending'',
           p_tokenA = Some (a_token activity), p_value = a_value activity,
           p_apy = Some apy, p_timestamp = a_timestamp activity\<rparr> # ps, w2))"

definition processLendingPositions ::
  "(string option \<Rightarrow> string) \<Rightarrow> WalletActivity list \<Rightarrow> World \<Rightarrow> DeFiPosition list \<times> World" where
  "processLendingPositions idp activities w =
     lendingPositions idp (getActivitiesByType activities Lending) w"

fun liquidityPositions ::
  "(string option \<Rightarrow> string) \<Rightarrow> WalletActivity list \<Rightarrow> World \<Rightarrow> DeFiPosition list \<times> World" where
  "liquidityPositions idp [] w = ([], w)"
| "liquidityPositions idp (activity # rest) w =
     (let (apy, w1) = generateRandomApy APY_RANGES_LIQUIDITY w;
          (ps, w2) = liquidityPositions idp rest w1
      in (\<lparr>p_protocol = idp (a_programId activity), p_type = ''Liquidity'',
           p_tokenA = None, p_value = a_value activity,
           p_apy = Some apy, p_timestamp = a_timestamp activity\<rparr> # ps, w2))"

definition processLiquidityPositions ::
  "(string option \<Rightarrow> string) \<Rightarrow> WalletActivity list \<Rightarrow> World \<Rightarrow> DeFiPosition list \<times> World" where
  "processLiquidityPositions idp activities w =
     (let lpProtocols = [''RAYDIUM_SWAP'', ''ORCA_SWAP'']
      in liquidityPositions idp
           (filter (\<lambda>activity. a_type activity = AccountCreation
                      \<and> idp (a_programId activity) \<in> set lpProtocols) activities) w)"

definition createAggregatePosition :: "jsnum \<Rightarrow> World \<Rightarrow> DeFiPosition \<times> World" where
  "createAggregatePosition totalVolume w =
     (let (now, w1) = Date_now w
      in (\<lparr>p_protocol = ''Aggregate'', p_type = ''Trading Statistics'',
           p_tokenA = Some ''Multiple'', p_value = Some totalVolume, p_apy = None,
           p_timestamp = now\<rparr>, w1))"

text \<open>
  \<open>analyzeDeFiPositions\<close>. An array is truthy also when it is empty, so the first test
  is whether the entry has a position list at all. The function is declared
  \<open>async\<close> and awaits nothing: its body runs in one piece.
\<close>

definition analyzeDeFiPositions ::
  "(string option \<Rightarrow> string) \<Rightarrow> string \<Rightarrow> World \<Rightarrow> DeFiPosition list \<times> World" where
  "analyzeDeFiPositions idp publicKey w =
     (let cachedData = walletCache_get w publicKey
      in case (case cachedData of None \<Rightarrow> None | Some entry \<Rightarrow> ce_defiPositions entry) of
           Some cached \<Rightarrow> (cached, w)
         | None \<Rightarrow>
             let activities =
                   (case cachedData of
                      None \<Rightarrow> []
                    | Some entry \<Rightarrow> (case ce_activities entry of None \<Rightarrow> [] | Some acts \<Rightarrow> acts));
                 successfulActivities = filter a_success activities
             in if length successfulActivities = 0 then ([], w)
                else
                  let (staking, w1) = processStakingPositions idp successfulActivities w;
                      (trading, w2) = processTradingPositions idp successfulActivities w1;
                      (lending, w3) = processLendingPositions idp successfulActivities w2;
                      (liquidity, w4) = processLiquidityPositions idp successfulActivities w3;
                      positions = staking @ trading @ lending @ liquidity;
                      swapActivities = getActivitiesByType successfulActivities Swap;
                      (positions1, w5) =
                        (if length swapActivities > 0
                         then let totalVolume = calculateTotalValue swapActivities;
                                  (aggregate, w5) = createAggregatePosition totalVolume w4
                              in (positions @ [aggregate], w5)
                         else (positions, w4));
                      w6 = (case cachedData of
                              Some entry \<Rightarrow>
                                walletCache_set w5 publicKey
                                  (entry\<lparr>ce_defiPositions := Some positions1\<rparr>)
                            | None \<Rightarrow> w5)
                  in (positions1, w6))"

subsection \<open>Notions the properties of the synthesizer are stated with\<close>

text \<open>
  What the cache holds for a wallet: the activities (none when the wallet or the field is
  missing) and the position list, if there is one.
\<close>

definition cached_activities :: "World \<Rightarrow> string \<Rightarrow> WalletActivity list" where
  "cached_activities w publicKey =
     (case cache w publicKey of
        None \<Rightarrow> []
      | Some entry \<Rightarrow> (case ce_activities entry of None \<Rightarrow> [] | Some acts \<Rightarrow> acts))"

definition cached_positions :: "World \<Rightarrow> string \<Rightarrow> DeFiPosition list option" where
  "cached_positions w publicKey =
     (case cache w publicKey of None \<Rightarrow> None | Some entry \<Rightarrow> ce_defiPositions entry)"

text \<open>
  The activities the trading pass looks at. An activity lies within the last 24 hours of
  an evaluation time when its timestamp is not after that time and less than 86400000
  milliseconds before it. The pass tests less: that fewer than 86400000 milliseconds
  lie between the timestamp and the time it reads, which an activity stamped after that
  time passes too.
\<close>

definition trading_candidates ::
  "(string option \<Rightarrow> string) \<Rightarrow> WalletActivity list \<Rightarrow> WalletActivity list" where
  "trading_candidates idp acts =
     filter (\<lambda>a. a_type a = Swap \<or> idp (a_programId a) = ''FLUXBEAM'') acts"

definition within_last_24_hours :: "int \<Rightarrow> WalletActivity \<Rightarrow> bool" where
  "within_last_24_hours now a = (a_timestamp a \<le> now \<and> now - 86400000 < a_timestamp a)"

definition newer_than_a_day :: "int \<Rightarrow> WalletActivity \<Rightarrow> bool" where
  "newer_than_a_day now a = (now - a_timestamp a < ONE_DAY_MS)"

text \<open>
  \<open>Math.random()\<close> returns a number that is at least 0 and less than 1; a position has
  its APY within bounds when the field is present and lies between them.
\<close>

definition unit_random :: "World \<Rightarrow> bool" where
  "unit_random w = (\<forall>i. 0 \<le> random_source w i \<and> random_source w i < 1)"

definition apy_within :: "real \<Rightarrow> real \<Rightarrow> DeFiPosition \<Rightarrow> bool" where
  "apy_within lo hi p = (case p_apy p of None \<Rightarrow> False | Some apy \<Rightarrow> lo \<le> apy \<and> apy \<le> hi)"

section \<open>The pattern analyzer on a store\<close>

text \<open>
  For what the analyzer does to its argument, arrays and activity objects are kept in a
  store. An array is a list of references to activity objects; \<open>next_ref\<close> is the next
  free address. The arrays the analyzer allocates (the groups, the copy that is sorted)
  live in the store as the argument does; the list of patterns and the list of gaps hold
  no activities and stay values. A function returns \<open>None\<close> where the source would read
  a property of undefined.
\<close>

type_synonym ref = nat

record Store =
  objects :: "ref \<rightharpoonup> WalletActivity"
  arrays :: "ref \<rightharpoonup> ref list"
  next_ref :: ref

text \<open>An array literal or a spread copy allocates; \<open>push\<close> writes to the array it is called on.\<close>

definition new_array :: "ref list \<Rightarrow> Store \<Rightarrow> ref \<times> Store" where
  "new_array elems st =
     (next_ref st,
      st\<lparr>arrays := (arrays st)(next_ref st \<mapsto> elems), next_ref := next_ref st + 1\<rparr>)"

definition array_push :: "ref \<Rightarrow> ref \<Rightarrow> Store \<Rightarrow> Store option" where
  "array_push arr x st =
     (case arrays st arr of
        None \<Rightarrow> None
      | Some elems \<Rightarrow> Some (st\<lparr>arrays := (arrays st)(arr \<mapsto> elems @ [x])\<rparr>))"

text \<open>The activities an array refers to, in order.\<close>

definition st_deref :: "ref \<Rightarrow> Store \<Rightarrow> WalletActivity list option" where
  "st_deref arr st =
     (case arrays st arr of None \<Rightarrow> None | Some elems \<Rightarrow> those (map (objects st) elems))"

text \<open>The callback of the \<open>reduce\<close> in \<open>groupActivitiesByType\<close>; the groups object maps a type to its array.\<close>

definition st_group_step ::
  "ref \<Rightarrow> (ActivityType \<rightharpoonup> ref) \<Rightarrow> Store \<Rightarrow> ((ActivityType \<rightharpoonup> ref) \<times> Store) option" where
  "st_group_step activity groups st =
     (case objects st activity of
        None \<Rightarrow> None
      | Some obj \<Rightarrow>
          let t = a_type obj;
              (groups1, st1) =
                (if groups t = None
                 then let (g, st0) = new_array [] st in (groups(t \<mapsto> g), st0)
                 else (groups, st))
          in case groups1 t of
               None \<Rightarrow> None
             | Some g \<Rightarrow>
                 (case array_push g activity st1 of
                    None \<Rightarrow> None
                  | Some st2 \<Rightarrow> Some (groups1, st2)))"

text \<open>
  \<open>reduce\<close> fixes the length at the start and reads the element of index \<open>k\<close> from the
  array as it is when the index is reached.
\<close>

function st_reduce_groups ::
  "ref \<Rightarrow> nat \<Rightarrow> nat \<Rightarrow> (ActivityType \<rightharpoonup> ref) \<Rightarrow> Store \<Rightarrow> ((ActivityType \<rightharpoonup> ref) \<times> Store) option" where
  "st_reduce_groups activities k len groups st =
     (if k < len then
        (case arrays st activities of
           None \<Rightarrow> None
         | Some elems \<Rightarrow>
             if k < length elems then
               (case st_group_step (elems ! k) groups st of
                  None \<Rightarrow> None
                | Some (groups1, st1) \<Rightarrow> st_reduce_groups activities (k + 1) len groups1 st1)
             else st_reduce_groups activities (k + 1) len groups st)
      else Some (groups, st))"
  by pat_completeness auto
termination
  by (relation "measure (\<lambda>(activities, k, len, groups, st). len - k)") auto

definition st_groupActivitiesByType ::
  "ref \<Rightarrow> Store \<Rightarrow> ((ActivityType \<rightharpoonup> ref) \<times> Store) option" where
  "st_groupActivitiesByType activities st =
     (case arrays st activities of
        None \<Rightarrow> None
      | Some elems \<Rightarrow> st_reduce_groups activities 0 (length elems) Map.empty st)"

text \<open>
  \<open>sort\<close> with the comparator \<open>(a, b) => b.timestamp - a.timestamp\<close> reorders the array it
  is called on, stably, newest first; the comparator reads the objects.
\<close>

definition st_sort_newest_first :: "ref \<Rightarrow> Store \<Rightarrow> Store option" where
  "st_sort_newest_first arr st =
     (case arrays st arr of
        None \<Rightarrow> None
      | Some elems \<Rightarrow>
          (case those (map (objects st) elems) of
             None \<Rightarrow> None
           | Some objs \<Rightarrow>
               Some (st\<lparr>arrays := (arrays st)
                       (arr \<mapsto> map fst (sort_key (\<lambda>p. - a_timestamp (snd p)) (zip elems objs)))\<rparr>)))"

definition st_detectDCAPattern ::
  "ref \<Rightarrow> TransactionPattern list \<Rightarrow> Store \<Rightarrow> (TransactionPattern list \<times> Store) option" where
  "st_detectDCAPattern swaps patterns st =
     (case arrays st swaps of
        None \<Rightarrow> None
      | Some elems \<Rightarrow>
          if length elems < MINIMUM_SWAPS then Some (patterns, st)
          else
            let (sortedRef, st1) = new_array elems st
            in case st_sort_newest_first sortedRef st1 of
                 None \<Rightarrow> None
               | Some st2 \<Rightarrow>
                   (case st_deref sortedRef st2 of
                      None \<Rightarrow> None
                    | Some sortedActs \<Rightarrow>
                        let (mean, standardDeviation) = calculateStats (timeGaps sortedActs);
                            coefficient = js_div standardDeviation mean
                        in Some (if js_lt coefficient DCA_DEVIATION_THRESHOLD
                                 then patterns @ [PATTERNS_DCA] else patterns, st2)))"

definition st_hasMinimumActivities :: "ref option \<Rightarrow> nat \<Rightarrow> Store \<Rightarrow> bool" where
  "st_hasMinimumActivities grp minimum st =
     (case grp of
        None \<Rightarrow> False
      | Some g \<Rightarrow> (case arrays st g of None \<Rightarrow> False | Some elems \<Rightarrow> length elems \<ge> minimum))"

definition st_hasActivities :: "ref option \<Rightarrow> Store \<Rightarrow> bool" where
  "st_hasActivities grp st =
     (case grp of
        None \<Rightarrow> False
      | Some g \<Rightarrow> (case arrays st g of None \<Rightarrow> False | Some elems \<Rightarrow> length elems > 0))"

definition st_analyzeTransactionPatterns ::
  "ref \<Rightarrow> Store \<Rightarrow> (TransactionPattern list \<times> Store) option" where
  "st_analyzeTransactionPatterns activities st =
     (case arrays st activities of
        None \<Rightarrow> None
      | Some elems \<Rightarrow>
          if length elems < MINIMUM_TRANSACTIONS then Some ([PATTERNS_INSUFFICIENT_DATA], st)
          else
            (case st_groupActivitiesByType activities st of
               None \<Rightarrow> None
             | Some (activityGroups, st1) \<Rightarrow>
                 let (swaps, st2) =
                       (case activityGroups Swap of
                          Some g \<Rightarrow> (g, st1)
                        | None \<Rightarrow> new_array [] st1)
                 in case st_detectDCAPattern swaps [] st2 of
                      None \<Rightarrow> None
                    | Some (patterns0, st3) \<Rightarrow>
                        let patterns1 =
                              (if st_hasActivities (activityGroups Lending) st3
                               then patterns0 @ [PATTERNS_LENDING] else patterns0);
                            patterns2 =
                              (if st_hasMinimumActivities (activityGroups Staking)
                                    MINIMUM_STAKING_ACTIONS st3
                               then patterns1 @ [PATTERNS_YIELD_FARMING] else patterns1)
                        in Some (if length patterns2 > 0 then patterns2 else [PATTERNS_GENERAL],
                                 st3)))"

text \<open>
  \<open>recommendStrategies\<close> on the store: it reads the length of the array and the program
  ids of the activities, and writes neither array nor object (its set of protocols is
  its own), so it returns the strategies alone.
\<close>

definition st_recommendStrategies ::
  "(string option \<Rightarrow> string) \<Rightarrow> ref \<Rightarrow> WalletProfile option \<Rightarrow> Store \<Rightarrow> Strategy list option" where
  "st_recommendStrategies idp activities profile st =
     (case arrays st activities of
        None \<Rightarrow> None
      | Some elems \<Rightarrow>
          if length elems = 0 then Some [STRATEGIES_BEGINNER]
          else
            (case those (map (objects st) elems) of
               None \<Rightarrow> None
             | Some acts \<Rightarrow>
                 let rp = (case profile of None \<Rightarrow> moderate | Some p \<Rightarrow> riskProfile p)
                 in Some (generateRecommendations rp (extractUsedProtocols idp acts))))"

text \<open>
  A store is in order when every array lies below the next free address; an array holds
  a list of activities when each of its references leads to the activity of that place.
\<close>

definition store_ok :: "Store \<Rightarrow> bool" where
  "store_ok st = (\<forall>r. arrays st r \<noteq> None \<longrightarrow> r < next_ref st)"

definition holds_activities :: "Store \<Rightarrow> ref \<Rightarrow> WalletActivity list \<Rightarrow> bool" where
  "holds_activities st arr acts =
     (case arrays st arr of
        None \<Rightarrow> False
      | Some elems \<Rightarrow> map (objects st) elems = map Some acts)"

text \<open>What a call may not touch: the objects, and the arrays that were there before it.\<close>

definition preserves :: "Store \<Rightarrow> Store \<Rightarrow> bool" where
  "preserves st st1 =
     (objects st1 = objects st \<and> next_ref st \<le> next_ref st1
      \<and> (\<forall>r. r < next_ref st \<longrightarrow> arrays st1 r = arrays st r))"


subsection \<open>The invariant of the grouping loop\<close>

text \<open>
  After \<open>k\<close> steps of the \<open>reduce\<close>, started in the store \<open>st0\<close> on the array of elements
  \<open>elems\<close>: nothing of \<open>st0\<close> has changed, and the group of a type is a new array that
  holds the references of that type among the first \<open>k\<close> elements, in their order; a
  type without such an element has no group.
\<close>

definition has_type :: "Store \<Rightarrow> ActivityType \<Rightarrow> ref \<Rightarrow> bool" where
  "has_type st t r = (case objects st r of None \<Rightarrow> False | Some obj \<Rightarrow> a_type obj = t)"

definition group_inv ::
  "Store \<Rightarrow> ref list \<Rightarrow> nat \<Rightarrow> (ActivityType \<rightharpoonup> ref) \<Rightarrow> Store \<Rightarrow> bool" where
  "group_inv st0 elems k groups st =
     (preserves st0 st \<and> store_ok st
      \<and> (\<forall>t. case groups t of
                None \<Rightarrow> filter (has_type st0 t) (take k elems) = []
              | Some g \<Rightarrow> next_ref st0 \<le> g
                         \<and> filter (has_type st0 t) (take k elems) \<noteq> []
                         \<and> arrays st g = Some (filter (has_type st0 t) (take k elems))))"

section \<open>Concrete inputs\<close>

definition example_activity :: "ActivityType \<Rightarrow> int \<Rightarrow> WalletActivity" where
  "example_activity t ts =
     \<lparr>a_signature = ''sig'', a_type = t, a_programId = None, a_token = ''SOL'',
      a_value = Some (Fin 2), a_timestamp = ts, a_success = True, a_description = None\<rparr>"

definition dca_example :: "WalletActivity list" where
  "dca_example =
     [example_activity Swap 0, example_activity Swap 1000, example_activity Transfer 1500,
      example_activity Swap 2000, example_activity Swap 3000]"

definition drift_example :: "WalletActivity list" where
  "drift_example =
     [example_activity Swap 1700000000000, example_activity Swap 1700344435246,
      example_activity Transfer 1700500000000, example_activity Swap 1700715215639,
      example_activity Swap 1701360532827]"

definition jitter_example :: "WalletActivity list" where
  "jitter_example =
     [example_activity Swap 13321798856, example_activity Swap 7416314745,
      example_activity Transfer 5000000000, example_activity Swap 2682174946,
      example_activity Swap 0]"

definition same_time_example :: "WalletActivity list" where
  "same_time_example =
     [example_activity Swap 1000, example_activity Swap 1000, example_activity Swap 1000,
      example_activity Lending 1000, example_activity Transfer 2000]"

definition example_world :: World where
  "example_world =
     \<lparr>cache = Map.empty, cache_writes = [], random_source = (\<lambda>i. 1 / 2), random_calls = 0,
      clock = (\<lambda>i. 100000000), clock_calls = 0\<rparr>"

definition marinade_activity :: WalletActivity where
  "marinade_activity =
     \<lparr>a_signature = ''sig1'', a_type = Staking,
      a_programId = Some ''MarBmsSgKXdrN1egZf5sqe1TMai9K1rChYNDJgjq7aD'', a_token = ''SOL'',
      a_value = Some (Fin 10), a_timestamp = 99990000, a_success = True, a_description = None\<rparr>"

definition fluxbeam_activity :: WalletActivity where
  "fluxbeam_activity =
     \<lparr>a_signature = ''sig2'', a_type = Transfer,
      a_programId = Some ''FLUXubRmkEi2q6K3Y9kBPg9248ggaZVsoSFhtJHSrm1X'', a_token = ''USDC'',
      a_value = None, a_timestamp = 99995000, a_success = True, a_description = None\<rparr>"

definition failed_activity :: WalletActivity where
  "failed_activity =
     \<lparr>a_signature = ''sig3'', a_type = Swap, a_programId = None, a_token = ''SOL'',
      a_value = Some (Fin 1), a_timestamp = 99990000, a_success = False, a_description = None\<rparr>"


definition trading_example :: "WalletActivity list" where
  "trading_example =
     [example_activity Swap 99990000, example_activity Swap 1000, fluxbeam_activity,
      example_activity Lending 99999000]"

definition stale_position :: DeFiPosition where
  "stale_position =
     \<lparr>p_protocol = ''MARINADE_STAKING'', p_type = ''Staking'', p_tokenA = Some ''SOL'',
      p_value = Some (Fin 10), p_apy = Some 6, p_timestamp = 99990000\<rparr>"

definition staking_world :: World where
  "staking_world =
     example_world\<lparr>cache :=
       [''wallet'' \<mapsto> \<lparr>ce_activities = Some [marinade_activity], ce_defiPositions = None,
                         ce_profile = None\<rparr>]\<rparr>"

definition cached_world :: World where
  "cached_world =
     example_world\<lparr>cache :=
       [''wallet'' \<mapsto> \<lparr>ce_activities = Some [failed_activity],
                         ce_defiPositions = Some [stale_position], ce_profile = None\<rparr>]\<rparr>"

definition failed_world :: World where
  "failed_world =
     example_world\<lparr>cache :=
       [''wallet'' \<mapsto> \<lparr>ce_activities = Some [failed_activity], ce_defiPositions = None,
                         ce_profile = None\<rparr>]\<rparr>"

definition example_store :: Store where
  "example_store =
     \<lparr>objects = [0 \<mapsto> example_activity Swap 0, 1 \<mapsto> example_activity Swap 1000,
                 2 \<mapsto> example_activity Transfer 1500, 3 \<mapsto> example_activity Swap 2000,
                 4 \<mapsto> example_activity Swap 3000],
      arrays = [0 \<mapsto> [0, 1, 2, 3, 4]],
      next_ref = 1\<rparr>"

definition other_store :: Store where
  "other_store =
     \<lparr>objects = [10 \<mapsto> example_activity Swap 0, 11 \<mapsto> example_activity Swap 1000,
                 12 \<mapsto> example_activity Transfer 1500, 13 \<mapsto> example_activity Swap 2000,
                 14 \<mapsto> example_activity Swap 3000, 15 \<mapsto> example_activity Lending 7],
      arrays = [3 \<mapsto> [15, 15], 7 \<mapsto> [10, 11, 12, 13, 14]],
      next_ref = 8\<rparr>"

section \<open>Properties of the arithmetic\<close>

lemma pow2_powr: "pow2 e = 2 powr of_int e"
  by (simp add: pow2_def powr_int)

lemma pow2_pos: "0 < pow2 e"
  by (simp add: pow2_def)

lemma pow2_add: "pow2 (a + b) = pow2 a * pow2 b"
  by (simp add: pow2_powr powr_add)

lemma pow2_nat: "0 \<le> e \<Longrightarrow> pow2 e = of_int (2 ^ nat e)"
  by (simp add: pow2_def)

lemma rne_near:
  assumes "\<bar>q - of_int n\<bar> < 1 / 2"
  shows "rne q = n"
proof -
  from assms have lo: "of_int n - 1 / 2 < q" and hi: "q < of_int n + 1 / 2" by linarith+
  then consider (below) "\<lfloor>q\<rfloor> = n - 1" | (same) "\<lfloor>q\<rfloor> = n" by linarith
  then show ?thesis
  proof cases
    case below
    with lo show ?thesis by (simp add: rne_def Let_def)
  next
    case same
    with hi show ?thesis by (simp add: rne_def Let_def)
  qed
qed

lemma floor_log2:
  assumes "0 < x" and "pow2 e \<le> x" and "x < pow2 (e + 1)"
  shows "\<lfloor>log 2 x\<rfloor> = e"
  using assms floor_log_eq_powr_iff[of x 2 e] by (simp add: pow2_powr)

text \<open>
  How a rounding is computed: \<open>e\<close> is the binary exponent of \<open>x\<close>, and \<open>n\<close> the integer
  nearest to \<open>x\<close> in units of \<open>2 ^ (e - 52)\<close>, no tie.
\<close>

lemma round_double_pos:
  assumes "0 < x" and "pow2 e \<le> x" and "x < pow2 (e + 1)" and "- 1022 \<le> e"
    and "\<bar>x / pow2 (e - 52) - of_int n\<bar> < 1 / 2"
    and "r = of_int n * pow2 (e - 52)" and "r < 2 ^ 1024"
  shows "round_double x = Fin r"
proof -
  have "\<lfloor>log 2 \<bar>x\<bar>\<rfloor> = e" using floor_log2[OF assms(1,2,3)] assms(1) by simp
  then have e: "max \<lfloor>log 2 \<bar>x\<bar>\<rfloor> (- 1022) = e" using assms(4) by simp
  have "rne (\<bar>x\<bar> / pow2 (e - 52)) = n"
    using assms(1,5) by (simp add: rne_near)
  then show ?thesis
    using assms(1,6,7) e by (simp add: round_double_def Let_def)
qed

lemma round_double_minus:
  "round_double (- x) =
     (case round_double x of Fin r \<Rightarrow> Fin (- r) | PosInf \<Rightarrow> NegInf | NegInf \<Rightarrow> PosInf
      | NaN \<Rightarrow> NaN)"
  by (simp add: round_double_def Let_def)

lemma round_double_neg:
  assumes "x < 0" and "pow2 e \<le> - x" and "- x < pow2 (e + 1)" and "- 1022 \<le> e"
    and "\<bar>- x / pow2 (e - 52) - of_int n\<bar> < 1 / 2"
    and "r = - (of_int n * pow2 (e - 52))" and "- r < 2 ^ 1024"
  shows "round_double x = Fin r"
proof -
  have "round_double (- x) = Fin (- r)"
    using assms by (intro round_double_pos[where e = e and n = n]) simp_all
  then show ?thesis
    using round_double_minus[of "- x"] by simp
qed

lemma round_double_sqrt:
  assumes "(pow2 e)\<^sup>2 \<le> v" and "v < (pow2 (e + 1))\<^sup>2" and "- 1022 \<le> e"
    and "((of_int n - 1 / 2) * pow2 (e - 52))\<^sup>2 < v"
    and "v < ((of_int n + 1 / 2) * pow2 (e - 52))\<^sup>2"
    and "0 \<le> n"
    and "r = of_int n * pow2 (e - 52)" and "r < 2 ^ 1024"
  shows "round_double (sqrt v) = Fin r"
proof -
  let ?u = "pow2 (e - 52)"
  have u: "0 < ?u" by (rule pow2_pos)
  have lo: "pow2 e \<le> sqrt v" using assms(1) by (rule real_le_rsqrt)
  then have pos: "0 < sqrt v" using pow2_pos[of e] by linarith
  have hi: "sqrt v < pow2 (e + 1)"
    using assms(2) pow2_pos[of "e + 1"] by (intro real_less_lsqrt) simp_all
  have a: "(of_int n - 1 / 2) * ?u < sqrt v" using assms(4) by (rule real_less_rsqrt)
  have "0 \<le> (of_int n + 1 / 2) * ?u" using assms(6) u by simp
  then have b: "sqrt v < (of_int n + 1 / 2) * ?u" using assms(5) by (intro real_less_lsqrt)
  from a b u have "of_int n - 1 / 2 < sqrt v / ?u" "sqrt v / ?u < of_int n + 1 / 2"
    by (simp_all add: pos_less_divide_eq pos_divide_less_eq)
  then have "\<bar>sqrt v / ?u - of_int n\<bar> < 1 / 2" by linarith
  with pos lo hi assms(3,7,8) show ?thesis
    by (intro round_double_pos[where e = e and n = n])
qed

text \<open>An integer of magnitude below \<open>2 ^ 53\<close> is a double.\<close>

lemma round_double_of_int_pos:
  assumes "0 < n" and "n < 2 ^ 53"
  shows "round_double (of_int n) = Fin (of_int n)"
proof -
  let ?x = "real_of_int n"
  define e where "e = \<lfloor>log 2 ?x\<rfloor>"
  have x: "0 < ?x" "1 \<le> ?x" "?x < 2 ^ 53" using assms by simp_all
  from floor_log_eq_powr_iff[of ?x 2 e] x(1)
  have b: "pow2 e \<le> ?x" "?x < pow2 (e + 1)" by (simp_all add: e_def pow2_powr)
  have "0 \<le> log 2 ?x" using x(2) by simp
  then have e0: "0 \<le> e" by (simp add: e_def)
  have "log 2 ?x < 53"
    using x(1,3) by (simp add: log_less_iff)
  then have e52: "e \<le> 52" by (simp add: e_def floor_le_iff)
  define k where "k = 52 - e"
  have k0: "0 \<le> k" using e52 by (simp add: k_def)
  have "pow2 (e - 52) * pow2 k = pow2 0" unfolding pow2_add[symmetric] by (simp add: k_def)
  then have u: "pow2 (e - 52) * pow2 k = 1" by (simp add: pow2_def)
  then have q: "?x / pow2 (e - 52) = ?x * pow2 k"
    using pow2_pos[of "e - 52"] by (simp add: field_simps)
  have pk: "pow2 k = of_int (2 ^ nat k)" using k0 by (rule pow2_nat)
  show ?thesis
  proof (rule round_double_pos[where e = e and n = "n * 2 ^ nat k"])
    show "0 < ?x" by fact
    show "pow2 e \<le> ?x" by fact
    show "?x < pow2 (e + 1)" by fact
    show "- 1022 \<le> e" using e0 by simp
    show "\<bar>?x / pow2 (e - 52) - of_int (n * 2 ^ nat k)\<bar> < 1 / 2"
      by (simp add: q pk)
    show "?x = of_int (n * 2 ^ nat k) * pow2 (e - 52)"
    proof -
      have "of_int (n * 2 ^ nat k) * pow2 (e - 52) = ?x * (pow2 (e - 52) * pow2 k)"
        by (simp add: pk)
      then show ?thesis using u by simp
    qed
    show "?x < 2 ^ 1024"
    proof -
      have "(2::real) ^ 53 \<le> 2 ^ 1024" by (rule power_increasing) simp_all
      with x(3) show ?thesis by linarith
    qed
  qed
qed

lemma round_double_zero: "round_double 0 = Fin 0"
  by (simp add: round_double_def)

lemma round_double_numeral:
  "numeral k < (2::int) ^ 53 \<Longrightarrow> round_double (numeral k) = Fin (numeral k)"
  using round_double_of_int_pos[of "numeral k"] by simp

lemma round_double_one: "round_double 1 = Fin 1"
  using round_double_of_int_pos[of 1] by simp

lemmas round_double_small = round_double_zero round_double_one round_double_numeral

text \<open>The literals of the pattern analyzer.\<close>

lemma literal_three_tenths:
  "js_literal (3 / 10) = Fin (5404319552844595 / 18014398509481984)"
  unfolding js_literal_def
  by (rule round_double_pos[where e = "-2" and n = 5404319552844595]) (simp_all add: pow2_def)

lemma literal_half: "js_literal (1 / 2) = Fin (1 / 2)"
  unfolding js_literal_def
  by (rule round_double_pos[where e = "-1" and n = 4503599627370496]) (simp_all add: pow2_def)

lemma literal_seven_tenths:
  "js_literal (7 / 10) = Fin (3152519739159347 / 4503599627370496)"
  unfolding js_literal_def
  by (rule round_double_pos[where e = "-1" and n = 6305039478318694]) (simp_all add: pow2_def)

lemma literal_four_fifths:
  "js_literal (4 / 5) = Fin (3602879701896397 / 4503599627370496)"
  unfolding js_literal_def
  by (rule round_double_pos[where e = "-1" and n = 7205759403792794]) (simp_all add: pow2_def)

lemma literal_nine_tenths:
  "js_literal (9 / 10) = Fin (8106479329266893 / 9007199254740992)"
  unfolding js_literal_def
  by (rule round_double_pos[where e = "-1" and n = 8106479329266893]) (simp_all add: pow2_def)

lemmas literal_values =
  literal_three_tenths literal_half literal_seven_tenths literal_four_fifths literal_nine_tenths

section \<open>Properties of the pattern analyzer\<close>

lemma group_step_lookup:
  "group_step a groups t =
     (if a_type a = t
      then Some ((case groups t of None \<Rightarrow> [] | Some g \<Rightarrow> g) @ [a])
      else groups t)"
  by (simp add: group_step_def Let_def split: option.splits)

lemma fold_group_step_lookup:
  "fold group_step acts groups t =
     (if filter (\<lambda>a. a_type a = t) acts = [] then groups t
      else Some ((case groups t of None \<Rightarrow> [] | Some g \<Rightarrow> g) @ filter (\<lambda>a. a_type a = t) acts))"
  by (induction acts arbitrary: groups) (simp_all add: group_step_lookup)

lemma groupActivitiesByType_lookup:
  "groupActivitiesByType acts t =
     (if filter (\<lambda>a. a_type a = t) acts = [] then None
      else Some (filter (\<lambda>a. a_type a = t) acts))"
  by (simp add: groupActivitiesByType_def fold_group_step_lookup)

lemma timeGaps_double: "timeGaps xs = double_gaps (map a_timestamp xs)"
  by (induction xs rule: timeGaps.induct) simp_all

lemma sortedSwaps_timestamps:
  "map a_timestamp (sortedSwaps swaps) = rev (sort (map a_timestamp swaps))"
proof -
  let ?ys = "rev (map a_timestamp (sortedSwaps swaps))"
  have "sorted (map (\<lambda>a. - a_timestamp a) (sortedSwaps swaps))"
    by (simp add: sortedSwaps_def)
  then have "sorted ?ys"
    by (simp add: sorted_map rev_map[symmetric] sorted_wrt_rev sorted_wrt_map)
  moreover have "mset ?ys = mset (map a_timestamp swaps)"
    by (simp add: sortedSwaps_def)
  ultimately have "sort (map a_timestamp swaps) = ?ys"
    by (rule properties_for_sort[OF _ _, rotated -1]) 
  then show ?thesis by simp
qed

lemma fold_add_foldl:
  "fold (\<lambda>v s. js_add s (f v)) xs a = foldl js_add a (map f xs)"
  by (induction xs arbitrary: a) simp_all

lemma sum_values_double: "sum_values vs = double_sum vs"
  using fold_add_foldl[of "\<lambda>v. v" vs "Fin 0"] by (simp add: sum_values_def double_sum_def)

lemma sum_sq_dev_double:
  "sum_sq_dev mean vs = double_sum (map (\<lambda>x. js_pow2 (js_sub x mean)) vs)"
  by (simp add: sum_sq_dev_def double_sum_def fold_add_foldl)

lemma calculateStats_double: "calculateStats vs = (double_mean vs, double_sd vs)"
  by (simp add: calculateStats_def Let_def sum_values_double sum_sq_dev_double
      double_mean_def double_sd_def)

lemma variationCoefficient_gaps:
  "variationCoefficient swaps =
     js_div (double_sd (double_gaps (rev (sort (map a_timestamp swaps)))))
            (double_mean (double_gaps (rev (sort (map a_timestamp swaps)))))"
  by (simp add: variationCoefficient_def timeGaps_double sortedSwaps_timestamps
      calculateStats_double)

lemma variation_regular:
  "js_lt (variationCoefficient swaps) DCA_DEVIATION_THRESHOLD = dca_regular_double swaps"
  by (simp add: variationCoefficient_gaps DCA_DEVIATION_THRESHOLD_def dca_regular_double_def
      Let_def)

lemma detectDCAPattern_regular:
  "detectDCAPattern swaps patterns =
     (if 3 \<le> length swaps \<and> dca_regular_double swaps then patterns @ [PATTERNS_DCA]
      else patterns)"
  by (simp add: detectDCAPattern_def MINIMUM_SWAPS_def variation_regular not_less)

lemma analyze_sufficient:
  assumes "5 \<le> length acts"
  shows "analyzeTransactionPatterns acts =
     (let ps = detectDCAPattern (filter (\<lambda>a. a_type a = Swap) acts) []
               @ (if filter (\<lambda>a. a_type a = Lending) acts \<noteq> [] then [PATTERNS_LENDING] else [])
               @ (if 3 \<le> length (filter (\<lambda>a. a_type a = Staking) acts)
                  then [PATTERNS_YIELD_FARMING] else [])
      in if ps = [] then [PATTERNS_GENERAL] else ps)"
  using assms
  by (auto simp: analyzeTransactionPatterns_def MINIMUM_TRANSACTIONS_def
      groupActivitiesByType_lookup hasActivities_def hasMinimumActivities_def
      MINIMUM_STAKING_ACTIONS_def Let_def detectDCAPattern_regular)

lemma patternType_simps:
  "patternType PATTERNS_INSUFFICIENT_DATA = ''insufficient_data''"
  "patternType PATTERNS_GENERAL = ''general''"
  "patternType PATTERNS_DCA = ''dca''"
  "patternType PATTERNS_LENDING = ''lending_active''"
  "patternType PATTERNS_YIELD_FARMING = ''yield_farming''"
  by (simp_all add: PATTERNS_INSUFFICIENT_DATA_def PATTERNS_GENERAL_def PATTERNS_DCA_def
      PATTERNS_LENDING_def PATTERNS_YIELD_FARMING_def)

lemma analyze_patterns_from_table:
  "set (analyzeTransactionPatterns acts) \<subseteq>
     {PATTERNS_INSUFFICIENT_DATA, PATTERNS_GENERAL, PATTERNS_DCA, PATTERNS_LENDING,
      PATTERNS_YIELD_FARMING}"
proof (cases "5 \<le> length acts")
  case True
  then show ?thesis
    by (auto simp: analyze_sufficient detectDCAPattern_regular Let_def split: if_splits)
next
  case False
  then show ?thesis
    by (simp add: analyzeTransactionPatterns_def MINIMUM_TRANSACTIONS_def)
qed

lemma double_gaps_replicate:
  "double_gaps (replicate n t) = replicate (n - 1) (Fin 0)"
proof (induction n)
  case 0
  then show ?case by simp
next
  case (Suc n)
  then show ?case
    by (cases n) (simp_all add: js_sub_def double_add_def round_double_zero)
qed

lemma equal_timestamps_gaps:
  assumes "\<forall>a \<in> set swaps. a_timestamp a = t"
  shows "double_gaps (rev (sort (map a_timestamp swaps))) = replicate (length swaps - 1) (Fin 0)"
proof -
  have "map a_timestamp swaps = replicate (length swaps) t"
    using assms by (simp add: map_replicate_const[symmetric] cong: map_cong)
  then show ?thesis
    by (simp add: sort_key_id_if_sorted double_gaps_replicate)
qed

lemma foldl_add_zeros: "foldl js_add (Fin 0) (replicate k (Fin 0)) = Fin 0"
  by (induction k) (simp_all add: double_add_def round_double_zero)

lemma double_mean_zeros:
  assumes "0 < k"
  shows "double_mean (replicate k (Fin 0)) = Fin 0"
  using assms
  by (simp add: double_mean_def double_sum_def foldl_add_zeros double_div_def round_double_zero)

lemma double_sd_zeros:
  assumes "0 < k"
  shows "double_sd (replicate k (Fin 0)) = Fin 0"
  using assms
  by (simp add: double_sd_def double_mean_zeros double_sum_def js_sub_def double_add_def
      double_mul_def double_div_def double_sqrt_def round_double_zero foldl_add_zeros)

lemma variationCoefficient_equal_timestamps:
  assumes "3 \<le> length swaps" and "\<forall>a \<in> set swaps. a_timestamp a = t"
  shows "variationCoefficient swaps = NaN"
proof -
  have "0 < length swaps - 1" using assms(1) by simp
  then show ?thesis
    by (simp add: variationCoefficient_gaps equal_timestamps_gaps[OF assms(2)]
        double_mean_zeros double_sd_zeros)
qed

lemma confidence_values:
  "confidence PATTERNS_INSUFFICIENT_DATA = Fin 0"
  "confidence PATTERNS_GENERAL = Fin (1 / 2)"
  "confidence PATTERNS_DCA = Fin (3152519739159347 / 4503599627370496)"
  "confidence PATTERNS_LENDING = Fin (8106479329266893 / 9007199254740992)"
  "confidence PATTERNS_YIELD_FARMING = Fin (3602879701896397 / 4503599627370496)"
  by (simp_all add: PATTERNS_INSUFFICIENT_DATA_def PATTERNS_GENERAL_def PATTERNS_DCA_def
      PATTERNS_LENDING_def PATTERNS_YIELD_FARMING_def CONFIDENCE_LOW_def
      CONFIDENCE_MEDIUM_def CONFIDENCE_HIGH_def CONFIDENCE_VERY_HIGH_def literal_values)

lemma confidence_from_table:
  assumes "p \<in> set (analyzeTransactionPatterns acts)"
  shows "well_defined_confidence (confidence p)"
proof -
  from assms have "p \<in> {PATTERNS_INSUFFICIENT_DATA, PATTERNS_GENERAL, PATTERNS_DCA,
      PATTERNS_LENDING, PATTERNS_YIELD_FARMING}"
    using analyze_patterns_from_table by blast
  then show ?thesis
    by (auto simp: confidence_values)
qed

lemma no_dca_without_regularity:
  assumes "\<not> dca_regular_double (filter (\<lambda>a. a_type a = Swap) activities)"
    and "p \<in> set (analyzeTransactionPatterns activities)"
  shows "patternType p \<noteq> ''dca''"
proof (cases "5 \<le> length activities")
  case True
  with assms show ?thesis
    by (auto simp: analyze_sufficient detectDCAPattern_regular Let_def patternType_simps
        split: if_splits)
next
  case False
  with assms(2) show ?thesis
    by (simp add: analyzeTransactionPatterns_def MINIMUM_TRANSACTIONS_def patternType_simps)
qed

lemmas analyzer_unfold =
  analyzeTransactionPatterns_def MINIMUM_TRANSACTIONS_def groupActivitiesByType_def
  group_step_def detectDCAPattern_def MINIMUM_SWAPS_def variationCoefficient_def
  sortedSwaps_def calculateStats_def sum_values_def sum_sq_dev_def js_sub_def
  DCA_DEVIATION_THRESHOLD_def hasActivities_def hasMinimumActivities_def
  MINIMUM_STAKING_ACTIONS_def Let_def

lemmas double_unfold =
  double_add_def double_mul_def double_div_def double_sqrt_def round_double_small
  literal_values

lemma swaps_of_dca_example:
  "filter (\<lambda>a. a_type a = Swap) dca_example =
     [example_activity Swap 0, example_activity Swap 1000, example_activity Swap 2000,
      example_activity Swap 3000]"
  by (simp add: dca_example_def example_activity_def)

lemma example_run:
  "analyzeTransactionPatterns dca_example = [PATTERNS_DCA]"
  by (simp add: dca_example_def example_activity_def analyzer_unfold double_unfold)

lemma same_time_run:
  "analyzeTransactionPatterns same_time_example = [PATTERNS_LENDING]"
  by (simp add: same_time_example_def example_activity_def analyzer_unfold double_unfold)

text \<open>The roundings of the two runs with gaps that are nearly regular.\<close>

lemma drift_gap1:
  "double_add 1701360532827 (- 1700715215639) = Fin 645317188"
  unfolding double_add_def by (rule round_double_pos[where e = "29" and n = 5413312925794304]) (simp_all add: pow2_def)

lemma drift_gap2:
  "double_add 1700715215639 (- 1700344435246) = Fin 370780393"
  unfolding double_add_def by (rule round_double_pos[where e = "28" and n = 6220662741925888]) (simp_all add: pow2_def)

lemma drift_gap3:
  "double_add 1700344435246 (- 1700000000000) = Fin 344435246"
  unfolding double_add_def by (rule round_double_pos[where e = "28" and n = 5778664520155136]) (simp_all add: pow2_def)

lemma drift_sum1:
  "double_add 0 645317188 = Fin 645317188"
  unfolding double_add_def by (rule round_double_pos[where e = "29" and n = 5413312925794304]) (simp_all add: pow2_def)

lemma drift_sum2:
  "double_add 645317188 370780393 = Fin 1016097581"
  unfolding double_add_def by (rule round_double_pos[where e = "29" and n = 8523644296757248]) (simp_all add: pow2_def)

lemma drift_sum3:
  "double_add 1016097581 344435246 = Fin 1360532827"
  unfolding double_add_def by (rule round_double_pos[where e = "30" and n = 5706488278417408]) (simp_all add: pow2_def)

lemma drift_mean:
  "double_div 1360532827 3 = Fin (7608651037889877 / 16777216)"
  unfolding double_div_def by (rule round_double_pos[where e = "28" and n = 7608651037889877]) (simp_all add: pow2_def)

lemma drift_dev1:
  "double_add 645317188 (- (7608651037889877 / 16777216)) = Fin (3217974813698731 / 16777216)"
  unfolding double_add_def by (rule round_double_pos[where e = "27" and n = 6435949627397462]) (simp_all add: pow2_def)

lemma drift_sq1:
  "double_mul (3217974813698731 / 16777216) (3217974813698731 / 16777216) = Fin 36789635876741696"
  unfolding double_mul_def by (rule round_double_pos[where e = "55" and n = 4598704484592712]) (simp_all add: pow2_def)

lemma drift_acc1:
  "double_add 0 36789635876741696 = Fin 36789635876741696"
  unfolding double_add_def by (rule round_double_pos[where e = "55" and n = 4598704484592712]) (simp_all add: pow2_def)

lemma drift_dev2:
  "double_add 370780393 (- (7608651037889877 / 16777216)) = Fin (- (1387988295963989 / 16777216))"
  unfolding double_add_def by (rule round_double_neg[where e = "26" and n = 5551953183855956]) (simp_all add: pow2_def)

lemma drift_sq2:
  "double_mul (- (1387988295963989 / 16777216)) (- (1387988295963989 / 16777216)) = Fin 6844343792995097"
  unfolding double_mul_def by (rule round_double_pos[where e = "52" and n = 6844343792995097]) (simp_all add: pow2_def)

lemma drift_acc2:
  "double_add 36789635876741696 6844343792995097 = Fin 43633979669736792"
  unfolding double_add_def by (rule round_double_pos[where e = "55" and n = 5454247458717099]) (simp_all add: pow2_def)

lemma drift_dev3:
  "double_add 344435246 (- (7608651037889877 / 16777216)) = Fin (- (1829986517734741 / 16777216))"
  unfolding double_add_def by (rule round_double_neg[where e = "26" and n = 7319946070938964]) (simp_all add: pow2_def)

lemma drift_sq3:
  "double_mul (- (1829986517734741 / 16777216)) (- (1829986517734741 / 16777216)) = Fin 11897507530601542"
  unfolding double_mul_def by (rule round_double_pos[where e = "53" and n = 5948753765300771]) (simp_all add: pow2_def)

lemma drift_acc3:
  "double_add 43633979669736792 11897507530601542 = Fin 55531487200338336"
  unfolding double_add_def by (rule round_double_pos[where e = "55" and n = 6941435900042292]) (simp_all add: pow2_def)

lemma drift_variance:
  "double_div 55531487200338336 3 = Fin 18510495733446112"
  unfolding double_div_def by (rule round_double_pos[where e = "54" and n = 4627623933361528]) (simp_all add: pow2_def)

lemma drift_deviation:
  "double_sqrt 18510495733446112 = Fin (2282595311366963 / 16777216)"
  unfolding double_sqrt_def by (rule round_double_sqrt[where e = "27" and n = 4565190622733926]) (simp_all add: pow2_def power2_eq_square)

lemma drift_ratio:
  "double_div (2282595311366963 / 16777216) (7608651037889877 / 16777216) = Fin (5404319552844595 / 18014398509481984)"
  unfolding double_div_def by (rule round_double_pos[where e = "-2" and n = 5404319552844595]) (simp_all add: pow2_def)

lemma jitter_gap1:
  "double_add 13321798856 (- 7416314745) = Fin 5905484111"
  unfolding double_add_def by (rule round_double_pos[where e = "32" and n = 6192348907175936]) (simp_all add: pow2_def)

lemma jitter_gap2:
  "double_add 7416314745 (- 2682174946) = Fin 4734139799"
  unfolding double_add_def by (rule round_double_pos[where e = "32" and n = 4964105373876224]) (simp_all add: pow2_def)

lemma jitter_gap3:
  "double_add 2682174946 0 = Fin 2682174946"
  unfolding double_add_def by (rule round_double_pos[where e = "31" and n = 5624928552353792]) (simp_all add: pow2_def)

lemma jitter_sum1:
  "double_add 0 5905484111 = Fin 5905484111"
  unfolding double_add_def by (rule round_double_pos[where e = "32" and n = 6192348907175936]) (simp_all add: pow2_def)

lemma jitter_sum2:
  "double_add 5905484111 4734139799 = Fin 10639623910"
  unfolding double_add_def by (rule round_double_pos[where e = "33" and n = 5578227140526080]) (simp_all add: pow2_def)

lemma jitter_sum3:
  "double_add 10639623910 2682174946 = Fin 13321798856"
  unfolding double_add_def by (rule round_double_pos[where e = "33" and n = 6984459278614528]) (simp_all add: pow2_def)

lemma jitter_mean:
  "double_div 13321798856 3 = Fin (4656306185743019 / 1048576)"
  unfolding double_div_def by (rule round_double_pos[where e = "32" and n = 4656306185743019]) (simp_all add: pow2_def)

lemma jitter_dev1:
  "double_add 5905484111 (- (4656306185743019 / 1048576)) = Fin (1536042721432917 / 1048576)"
  unfolding double_add_def by (rule round_double_pos[where e = "30" and n = 6144170885731668]) (simp_all add: pow2_def)

lemma jitter_sq1:
  "double_mul (1536042721432917 / 1048576) (1536042721432917 / 1048576) = Fin 2145886575878686720"
  unfolding double_mul_def by (rule round_double_pos[where e = "60" and n = 8382369437026120]) (simp_all add: pow2_def)

lemma jitter_acc1:
  "double_add 0 2145886575878686720 = Fin 2145886575878686720"
  unfolding double_add_def by (rule round_double_pos[where e = "60" and n = 8382369437026120]) (simp_all add: pow2_def)

lemma jitter_dev2:
  "double_add 4734139799 (- (4656306185743019 / 1048576)) = Fin (307799188133205 / 1048576)"
  unfolding double_add_def by (rule round_double_pos[where e = "28" and n = 4924787010131280]) (simp_all add: pow2_def)

lemma jitter_sq2:
  "double_mul (307799188133205 / 1048576) (307799188133205 / 1048576) = Fin 86165837470125664"
  unfolding double_mul_def by (rule round_double_pos[where e = "56" and n = 5385364841882854]) (simp_all add: pow2_def)

lemma jitter_acc2:
  "double_add 2145886575878686720 86165837470125664 = Fin 2232052413348812288"
  unfolding double_add_def by (rule round_double_pos[where e = "60" and n = 8718954739643798]) (simp_all add: pow2_def)

lemma jitter_dev3:
  "double_add 2682174946 (- (4656306185743019 / 1048576)) = Fin (- (1843841909566123 / 1048576))"
  unfolding double_add_def by (rule round_double_neg[where e = "30" and n = 7375367638264492]) (simp_all add: pow2_def)

lemma jitter_sq3:
  "double_mul (- (1843841909566123 / 1048576)) (- (1843841909566123 / 1048576)) = Fin 3092057329442874880"
  unfolding double_mul_def by (rule round_double_pos[where e = "61" and n = 6039174471568115]) (simp_all add: pow2_def)

lemma jitter_acc3:
  "double_add 2232052413348812288 3092057329442874880 = Fin 5324109742791687168"
  unfolding double_add_def by (rule round_double_pos[where e = "62" and n = 5199325920695007]) (simp_all add: pow2_def)

lemma jitter_variance:
  "double_div 5324109742791687168 3 = Fin 1774703247597229056"
  unfolding double_div_def by (rule round_double_pos[where e = "60" and n = 6932434560926676]) (simp_all add: pow2_def)

lemma jitter_deviation:
  "double_sqrt 1774703247597229056 = Fin (2793783711445811 / 2097152)"
  unfolding double_sqrt_def by (rule round_double_sqrt[where e = "30" and n = 5587567422891622]) (simp_all add: pow2_def power2_eq_square)

lemma jitter_ratio:
  "double_div (2793783711445811 / 2097152) (4656306185743019 / 1048576) = Fin (2702159776422297 / 9007199254740992)"
  unfolding double_div_def by (rule round_double_pos[where e = "-2" and n = 5404319552844594]) (simp_all add: pow2_def)

lemmas drift_facts =
  drift_gap1 drift_gap2 drift_gap3 drift_sum1 drift_sum2 drift_sum3 drift_mean drift_dev1 drift_sq1 drift_acc1 drift_dev2 drift_sq2 drift_acc2 drift_dev3 drift_sq3 drift_acc3 drift_variance drift_deviation drift_ratio

lemmas jitter_facts =
  jitter_gap1 jitter_gap2 jitter_gap3 jitter_sum1 jitter_sum2 jitter_sum3 jitter_mean jitter_dev1 jitter_sq1 jitter_acc1 jitter_dev2 jitter_sq2 jitter_acc2 jitter_dev3 jitter_sq3 jitter_acc3 jitter_variance jitter_deviation jitter_ratio


lemma drift_run: "analyzeTransactionPatterns drift_example = [PATTERNS_GENERAL]"
  by (simp add: drift_example_def example_activity_def analyzer_unfold drift_facts
      literal_values)

lemma jitter_run: "analyzeTransactionPatterns jitter_example = [PATTERNS_DCA]"
  by (simp add: jitter_example_def example_activity_def analyzer_unfold jitter_facts
      literal_values)

lemma drift_gaps:
  "consecutive_gaps (rev (sort (map a_timestamp (filter (\<lambda>a. a_type a = Swap) drift_example))))
     = [645317188, 370780393, 344435246]"
  by (simp add: drift_example_def example_activity_def)

lemma jitter_gaps:
  "consecutive_gaps (rev (sort (map a_timestamp (filter (\<lambda>a. a_type a = Swap) jitter_example))))
     = [5905484111, 4734139799, 2682174946]"
  by (simp add: jitter_example_def example_activity_def)

lemma drift_regular: "dca_regular (filter (\<lambda>a. a_type a = Swap) drift_example)"
proof -
  let ?gaps = "[645317188, 370780393, 344435246] :: real list"
  have m: "population_mean ?gaps = 1360532827 / 3" by (simp add: population_mean_def)
  have "population_sd ?gaps < 1360532827 / 10"
    unfolding population_sd_def m by (rule real_less_lsqrt) (simp_all add: power2_eq_square)
  then show ?thesis
    by (simp add: dca_regular_def drift_gaps m)
qed

lemma jitter_irregular: "\<not> dca_regular (filter (\<lambda>a. a_type a = Swap) jitter_example)"
proof -
  let ?gaps = "[5905484111, 4734139799, 2682174946] :: real list"
  have m: "population_mean ?gaps = 13321798856 / 3" by (simp add: population_mean_def)
  have "13321798856 / 10 \<le> population_sd ?gaps"
    unfolding population_sd_def m by (rule real_le_rsqrt) (simp add: power2_eq_square)
  then show ?thesis
    by (simp add: dca_regular_def jitter_gaps m)
qed

text \<open>
  C5. An activity list with fewer than five entries yields exactly the one-element list
  holding the \<open>insufficient_data\<close> pattern, whose confidence is 0.
\<close>

theorem insufficient_data_below_minimum:
  assumes "length activities < 5"
  shows "analyzeTransactionPatterns activities = [PATTERNS_INSUFFICIENT_DATA]
         \<and> patternType PATTERNS_INSUFFICIENT_DATA = ''insufficient_data''
         \<and> confidence PATTERNS_INSUFFICIENT_DATA = Fin 0"
  using assms
  by (simp add: analyzeTransactionPatterns_def MINIMUM_TRANSACTIONS_def
      PATTERNS_INSUFFICIENT_DATA_def)

theorem insufficient_data_below_minimum_witness:
  "length [example_activity Swap 0, example_activity Lending 5] < 5
   \<and> analyzeTransactionPatterns [example_activity Swap 0, example_activity Lending 5]
       = [PATTERNS_INSUFFICIENT_DATA]
   \<and> confidence PATTERNS_INSUFFICIENT_DATA = Fin 0"
  using insufficient_data_below_minimum[of "[example_activity Swap 0, example_activity Lending 5]"]
  by simp

text \<open>
  C1. For an activity list of at least five entries with at least three swaps, the result
  holds a pattern of type \<open>dca\<close> exactly when the regularity test succeeds in the
  arithmetic of doubles: the gaps between the swaps' timestamps, sorted descending, have
  a population standard deviation whose quotient by their mean, every step rounded, is
  below the double nearest to three tenths (a zero mean makes the quotient \<open>NaN\<close>, and the
  pattern is absent). A pattern of that type is the table's \<open>dca\<close> pattern, whose
  confidence is the literal 0.7.
\<close>

theorem dca_iff_regular_gaps:
  assumes "5 \<le> length activities"
    and "3 \<le> length (filter (\<lambda>a. a_type a = Swap) activities)"
  shows "((\<exists>p \<in> set (analyzeTransactionPatterns activities). patternType p = ''dca'')
            = dca_regular_double (filter (\<lambda>a. a_type a = Swap) activities))
         \<and> (\<forall>p \<in> set (analyzeTransactionPatterns activities).
               patternType p = ''dca'' \<longrightarrow> p = PATTERNS_DCA \<and> confidence p = js_literal (7 / 10))"
proof -
  have "(\<exists>p \<in> set (analyzeTransactionPatterns activities). patternType p = ''dca'')
            = dca_regular_double (filter (\<lambda>a. a_type a = Swap) activities)"
    using assms(2)
    by (simp add: analyze_sufficient[OF assms(1)] detectDCAPattern_regular Let_def
        patternType_simps)
  moreover have "\<forall>p \<in> set (analyzeTransactionPatterns activities).
               patternType p = ''dca'' \<longrightarrow> p = PATTERNS_DCA \<and> confidence p = js_literal (7 / 10)"
  proof
    fix p assume "p \<in> set (analyzeTransactionPatterns activities)"
    then have "p \<in> {PATTERNS_INSUFFICIENT_DATA, PATTERNS_GENERAL, PATTERNS_DCA, PATTERNS_LENDING,
      PATTERNS_YIELD_FARMING}"
      using analyze_patterns_from_table by blast
    then show "patternType p = ''dca'' \<longrightarrow> p = PATTERNS_DCA \<and> confidence p = js_literal (7 / 10)"
      by (auto simp: patternType_simps) (simp add: PATTERNS_DCA_def CONFIDENCE_MEDIUM_def)
  qed
  ultimately show ?thesis by blast
qed

theorem dca_iff_regular_gaps_witness:
  "5 \<le> length dca_example \<and> 3 \<le> length (filter (\<lambda>a. a_type a = Swap) dca_example)
   \<and> dca_regular_double (filter (\<lambda>a. a_type a = Swap) dca_example)
   \<and> PATTERNS_DCA \<in> set (analyzeTransactionPatterns dca_example)
   \<and> confidence PATTERNS_DCA = js_literal (7 / 10)"
proof -
  have h1: "5 \<le> length dca_example" by (simp add: dca_example_def)
  have h2: "3 \<le> length (filter (\<lambda>a. a_type a = Swap) dca_example)"
    by (simp add: swaps_of_dca_example)
  have reg: "dca_regular_double (filter (\<lambda>a. a_type a = Swap) dca_example)"
    by (simp add: swaps_of_dca_example dca_regular_double_def example_activity_def
        double_sd_def double_mean_def double_sum_def js_sub_def double_unfold)
  from dca_iff_regular_gaps[OF h1 h2] reg
  obtain p where "p \<in> set (analyzeTransactionPatterns dca_example)" "patternType p = ''dca''"
    by blast
  with dca_iff_regular_gaps[OF h1 h2]
  have "PATTERNS_DCA \<in> set (analyzeTransactionPatterns dca_example)"
    "confidence PATTERNS_DCA = js_literal (7 / 10)" by auto
  with h1 h2 reg show ?thesis by blast
qed

text \<open>
  With the deviation, the mean and their quotient taken as exact numbers the equivalence
  fails in both directions. Swaps with the gaps 645317188, 370780393 and 344435246 have
  a quotient below three tenths, but rounded it is the double nearest to three tenths,
  which is not below itself: the result is the \<open>general\<close> pattern. Swaps with the gaps
  5905484111, 4734139799 and 2682174946 have a quotient of three tenths or more, but
  rounded it lies below the threshold: the result is the \<open>dca\<close> pattern.
\<close>

theorem exact_regularity_counterexample:
  "5 \<le> length drift_example \<and> 3 \<le> length (filter (\<lambda>a. a_type a = Swap) drift_example)
   \<and> dca_regular (filter (\<lambda>a. a_type a = Swap) drift_example)
   \<and> analyzeTransactionPatterns drift_example = [PATTERNS_GENERAL]
   \<and> patternType PATTERNS_GENERAL = ''general''
   \<and> 5 \<le> length jitter_example \<and> 3 \<le> length (filter (\<lambda>a. a_type a = Swap) jitter_example)
   \<and> \<not> dca_regular (filter (\<lambda>a. a_type a = Swap) jitter_example)
   \<and> analyzeTransactionPatterns jitter_example = [PATTERNS_DCA]
   \<and> patternType PATTERNS_DCA = ''dca''"
  using drift_regular drift_run jitter_irregular jitter_run
  by (simp add: patternType_simps)
     (simp add: drift_example_def jitter_example_def example_activity_def)

text \<open>
  C2. For a swap group of at least three swaps with one common timestamp the detector has
  no guard of its own: the mean gap and the deviation are 0, their quotient is \<open>NaN\<close>,
  and the comparison of \<open>NaN\<close> with the threshold is false. The detector returns with
  the pattern list unchanged, no \<open>dca\<close> pattern is in the result, and every pattern of
  the result has a well-defined confidence.
\<close>

theorem zero_gap_swaps_not_dca:
  assumes "3 \<le> length swaps" and "\<forall>a \<in> set swaps. a_timestamp a = t"
  shows "variationCoefficient swaps = NaN
         \<and> \<not> js_lt (variationCoefficient swaps) DCA_DEVIATION_THRESHOLD
         \<and> detectDCAPattern swaps patterns = patterns
         \<and> (\<forall>activities. filter (\<lambda>a. a_type a = Swap) activities = swaps \<longrightarrow>
              (\<forall>p \<in> set (analyzeTransactionPatterns activities).
                 patternType p \<noteq> ''dca'' \<and> well_defined_confidence (confidence p)))"
proof -
  have nan: "variationCoefficient swaps = NaN"
    using assms by (rule variationCoefficient_equal_timestamps)
  then have nolt: "\<not> js_lt (variationCoefficient swaps) DCA_DEVIATION_THRESHOLD" by simp
  then have det: "detectDCAPattern swaps patterns = patterns"
    by (simp add: detectDCAPattern_def)
  have "\<not> dca_regular_double swaps"
    using nolt by (simp add: variation_regular)
  then have "\<forall>activities. filter (\<lambda>a. a_type a = Swap) activities = swaps \<longrightarrow>
              (\<forall>p \<in> set (analyzeTransactionPatterns activities).
                 patternType p \<noteq> ''dca'' \<and> well_defined_confidence (confidence p))"
    using no_dca_without_regularity confidence_from_table by blast
  with nan nolt det show ?thesis by blast
qed

theorem zero_gap_swaps_not_dca_witness:
  "3 \<le> length (filter (\<lambda>a. a_type a = Swap) same_time_example)
   \<and> map a_timestamp (filter (\<lambda>a. a_type a = Swap) same_time_example) = [1000, 1000, 1000]
   \<and> variationCoefficient (filter (\<lambda>a. a_type a = Swap) same_time_example) = NaN
   \<and> detectDCAPattern (filter (\<lambda>a. a_type a = Swap) same_time_example) [] = []
   \<and> analyzeTransactionPatterns same_time_example = [PATTERNS_LENDING]
   \<and> patternType PATTERNS_LENDING \<noteq> ''dca''
   \<and> well_defined_confidence (confidence PATTERNS_LENDING)"
proof -
  let ?sw = "filter (\<lambda>a. a_type a = Swap) same_time_example"
  have h1: "3 \<le> length ?sw"
    by (simp add: same_time_example_def example_activity_def)
  have h2: "\<forall>a \<in> set ?sw. a_timestamp a = 1000"
    by (simp add: same_time_example_def example_activity_def)
  have ts: "map a_timestamp ?sw = [1000, 1000, 1000]"
    by (simp add: same_time_example_def example_activity_def)
  from zero_gap_swaps_not_dca[OF h1 h2, of "[]"] h1 ts same_time_run show ?thesis by simp
qed

text \<open>
  The claim that no \<open>NaN\<close> reaches a comparison fails at three swaps of timestamp 1000:
  the value compared with the threshold is \<open>NaN\<close>.
\<close>

theorem zero_gap_swaps_counterexample:
  "3 \<le> length [example_activity Swap 1000, example_activity Swap 1000, example_activity Swap 1000]
   \<and> a_timestamp (example_activity Swap 1000) = 1000
   \<and> timeGaps (sortedSwaps [example_activity Swap 1000, example_activity Swap 1000,
        example_activity Swap 1000]) = [Fin 0, Fin 0]
   \<and> calculateStats [Fin 0, Fin 0] = (Fin 0, Fin 0)
   \<and> variationCoefficient [example_activity Swap 1000, example_activity Swap 1000,
        example_activity Swap 1000] = NaN"
  by (simp add: example_activity_def variationCoefficient_def sortedSwaps_def
      calculateStats_def sum_values_def sum_sq_dev_def js_sub_def Let_def double_unfold)

section \<open>Properties of the strategy recommender\<close>

lemma identify_marinade:
  "identifyProtocol (Some ''MarBmsSgKXdrN1egZf5sqe1TMai9K1rChYNDJgjq7aD'') = ''MARINADE_STAKING''"
  by (simp add: identifyProtocol_def KNOWN_PROGRAMS_def)


lemma fold_push_filter:
  "fold (\<lambda>x acc. if P x then acc @ [x] else acc) xs acc0 = acc0 @ filter P xs"
  by (induction xs arbitrary: acc0) simp_all

lemma generateRecommendations_filter:
  "generateRecommendations rp used =
     filter (\<lambda>s. \<not> shouldExclude used s) (baseStrategies rp)"
  by (simp add: generateRecommendations_def fold_push_filter)


lemma shouldExclude_cases:
  "shouldExclude used s =
     (''MARINADE_STAKING'' \<in> used \<and> s = STRATEGIES_LIQUID_STAKING
      \<or> ''SOLEND'' \<in> used \<and> s = STRATEGIES_SUPPLY_STABLECOINS
      \<or> ''MANGO_MARKETS'' \<in> used \<and> s = STRATEGIES_PERPETUAL_TRADING)"
  by (auto simp: shouldExclude_def PROTOCOL_STRATEGY_MAP_def)

lemma baseStrategies_simps:
  "baseStrategies conservative = [STRATEGIES_STAKING_SOL, STRATEGIES_LIQUID_STAKING]"
  "baseStrategies moderate = [STRATEGIES_SUPPLY_STABLECOINS, STRATEGIES_DIVERSIFIED_LP]"
  "baseStrategies aggressive = [STRATEGIES_LEVERAGED_FARMING, STRATEGIES_PERPETUAL_TRADING]"
  by (simp_all add: baseStrategies_def RISK_PROFILE_STRATEGIES_def)





section \<open>Properties of the position synthesizer\<close>

lemma calculateTotalValue_sum:
  "calculateTotalValue acts = double_sum (map value_or_zero acts)"
  by (simp add: calculateTotalValue_def double_sum_def fold_add_foldl)

lemma trading_positions_recent:
  "fst (processTradingPositions idp acts w) =
     (case filter (newer_than_a_day (clock w (clock_calls w))) (trading_candidates idp acts) of
        [] \<Rightarrow> []
      | first # others \<Rightarrow>
          [\<lparr>p_protocol = ''FLUXBEAM'', p_type = ''Trading'', p_tokenA = None,
            p_value = Some (calculateTotalValue (first # others)), p_apy = None,
            p_timestamp = fold max (map a_timestamp others) (a_timestamp first)\<rparr>])"
proof (cases "trading_candidates idp acts = []")
  case True
  then show ?thesis
    by (simp add: processTradingPositions_def trading_candidates_def)
next
  case False
  then show ?thesis
    by (simp add: processTradingPositions_def trading_candidates_def Date_now_def
        newer_than_a_day_def[abs_def] split: list.splits)
qed

lemma fold_max_Max:
  "fold max (map f others) (f first) = Max (set (map f (first # others)))"
  using Max.set_eq_fold[of "f first" "map f others"] by simp

lemma identify_fluxbeam:
  "identifyProtocol (Some ''FLUXubRmkEi2q6K3Y9kBPg9248ggaZVsoSFhtJHSrm1X'') = ''FLUXBEAM''"
  by (simp add: identifyProtocol_def KNOWN_PROGRAMS_def)

lemma identify_absent: "identifyProtocol None = ''Unknown''"
  by (simp add: identifyProtocol_def)

lemma generateRandomApy_world:
  "snd (generateRandomApy r w) = w\<lparr>random_calls := random_calls w + 1\<rparr>"
  by (simp add: generateRandomApy_def Math_random_def)

lemma generateRandomApy_staking_bounds:
  assumes "unit_random w"
  shows "5 \<le> fst (generateRandomApy APY_RANGES_STAKING w)
         \<and> fst (generateRandomApy APY_RANGES_STAKING w) < 8"
proof -
  from assms have "0 \<le> random_source w (random_calls w)" "random_source w (random_calls w) < 1"
    by (simp_all add: unit_random_def)
  then show ?thesis
    by (simp add: generateRandomApy_def Math_random_def APY_RANGES_STAKING_def)
qed

lemma stakingPositions_apy:
  assumes "unit_random w" and "p \<in> set (fst (stakingPositions idp acts w))"
  shows "p_type p = ''Staking'' \<and> apy_within 5 8 p"
  using assms
proof (induction acts arbitrary: w)
  case Nil
  then show ?case by simp
next
  case (Cons a acts)
  let ?w1 = "snd (generateRandomApy APY_RANGES_STAKING w)"
  have u1: "unit_random ?w1"
    using Cons.prems(1) by (simp add: generateRandomApy_world unit_random_def)
  from Cons.prems(2) consider
    (head) "p = \<lparr>p_protocol = idp (a_programId a), p_type = ''Staking'',
           p_tokenA = Some (a_token a), p_value = a_value a,
           p_apy = Some (fst (generateRandomApy APY_RANGES_STAKING w)), p_timestamp = a_timestamp a\<rparr>"
    | (tail) "p \<in> set (fst (stakingPositions idp acts ?w1))"
    by (auto simp: split_beta Let_def)
  then show ?case
  proof cases
    case head
    then show ?thesis
      using generateRandomApy_staking_bounds[OF Cons.prems(1)] by (simp add: apy_within_def)
  next
    case tail
    then show ?thesis using Cons.IH[OF u1] by simp
  qed
qed

lemma length_stakingPositions: "length (fst (stakingPositions idp acts w)) = length acts"
  by (induction acts arbitrary: w) (simp_all add: split_beta Let_def)

lemma trading_positions_type:
  "p \<in> set (fst (processTradingPositions idp acts w)) \<Longrightarrow> p_type p = ''Trading''"
  by (auto simp: processTradingPositions_def Let_def split_beta split: if_splits list.splits)

text \<open>
  C3. When the cache entry of the wallet holds a position list, \<open>analyzeDeFiPositions\<close>
  returns that list and leaves the world as it was: no entry is written, no random number
  is drawn and the clock is not read. The same holds after the activities of the entry
  have been replaced by any others.
\<close>

theorem cached_positions_returned:
  assumes "cache w publicKey = Some entry" and "ce_defiPositions entry = Some cached"
  shows "analyzeDeFiPositions idp publicKey w = (cached, w)
         \<and> analyzeDeFiPositions idp publicKey
               (w\<lparr>cache := (cache w)(publicKey \<mapsto> entry\<lparr>ce_activities := changed\<rparr>)\<rparr>)
             = (cached, w\<lparr>cache := (cache w)(publicKey \<mapsto> entry\<lparr>ce_activities := changed\<rparr>)\<rparr>)"
  using assms by (simp add: analyzeDeFiPositions_def walletCache_get_def)

theorem cached_positions_returned_witness:
  "cache cached_world ''wallet''
     = Some \<lparr>ce_activities = Some [failed_activity], ce_defiPositions = Some [stale_position],
              ce_profile = None\<rparr>
   \<and> analyzeDeFiPositions identifyProtocol ''wallet'' cached_world = ([stale_position], cached_world)
   \<and> cache_writes cached_world = []"
proof -
  have h1: "cache cached_world ''wallet''
     = Some \<lparr>ce_activities = Some [failed_activity], ce_defiPositions = Some [stale_position],
              ce_profile = None\<rparr>"
    by (simp add: cached_world_def example_world_def)
  have h2: "ce_defiPositions \<lparr>ce_activities = Some [failed_activity],
      ce_defiPositions = Some [stale_position], ce_profile = None\<rparr> = Some [stale_position]"
    by simp
  from cached_positions_returned[OF h1 h2, of identifyProtocol] h1
  show ?thesis by (simp add: cached_world_def example_world_def)
qed

text \<open>
  C6. When the cache holds no position list for the wallet and none of the cached
  activities is successful (or none is cached), \<open>analyzeDeFiPositions\<close> returns the empty
  list and leaves the world as it was; in particular nothing is written to the cache.
\<close>

theorem no_successful_activity_no_positions:
  assumes "cached_positions w publicKey = None"
    and "filter a_success (cached_activities w publicKey) = []"
  shows "analyzeDeFiPositions idp publicKey w = ([], w)"
  using assms
  by (simp add: analyzeDeFiPositions_def walletCache_get_def cached_positions_def
      cached_activities_def Let_def split: option.splits)

theorem no_successful_activity_no_positions_witness:
  "cached_positions failed_world ''wallet'' = None
   \<and> cached_activities failed_world ''wallet'' = [failed_activity]
   \<and> filter a_success (cached_activities failed_world ''wallet'') = []
   \<and> analyzeDeFiPositions identifyProtocol ''wallet'' failed_world = ([], failed_world)
   \<and> cached_positions example_world ''wallet'' = None
   \<and> analyzeDeFiPositions identifyProtocol ''wallet'' example_world = ([], example_world)"
proof -
  have h1: "cached_positions failed_world ''wallet'' = None"
    by (simp add: cached_positions_def failed_world_def example_world_def)
  have a: "cached_activities failed_world ''wallet'' = [failed_activity]"
    by (simp add: cached_activities_def failed_world_def example_world_def)
  have h2: "filter a_success (cached_activities failed_world ''wallet'') = []"
    by (simp add: a failed_activity_def)
  have h3: "cached_positions example_world ''wallet'' = None"
    by (simp add: cached_positions_def example_world_def)
  have h4: "filter a_success (cached_activities example_world ''wallet'') = []"
    by (simp add: cached_activities_def example_world_def)
  from no_successful_activity_no_positions[OF h1 h2, of identifyProtocol]
    no_successful_activity_no_positions[OF h3 h4, of identifyProtocol] h1 a h2 h3
  show ?thesis by simp
qed

text \<open>
  Without the condition on the position list the claim fails: an entry whose activities
  all failed and which holds a position list yields that list, not the empty one.
\<close>

theorem cached_positions_override_counterexample:
  "filter a_success (cached_activities cached_world ''wallet'') = []
   \<and> fst (analyzeDeFiPositions identifyProtocol ''wallet'' cached_world) = [stale_position]
   \<and> fst (analyzeDeFiPositions identifyProtocol ''wallet'' cached_world) \<noteq> []"
  by (simp add: cached_activities_def cached_world_def example_world_def failed_activity_def
      analyzeDeFiPositions_def walletCache_get_def)

text \<open>
  C4. The trading pass looks at the activities that are swaps or whose program resolves to
  \<open>FLUXBEAM\<close>. If for some of them fewer than 86400000 milliseconds lie between the
  timestamp and the time the pass reads from the clock, it returns exactly one position:
  protocol \<open>FLUXBEAM\<close>, type \<open>Trading\<close>, the sum of their values (added as doubles in the
  order of the list, an absent value counting 0) and the greatest of their timestamps.
  If there is none, it returns no position. When none of the activities looked at is
  stamped after the time read, those that pass the test are those within the last 24
  hours.
\<close>

theorem trading_pass_aggregates_recent:
  "(filter (newer_than_a_day (clock w (clock_calls w))) (trading_candidates idp acts) \<noteq> [] \<longrightarrow>
      fst (processTradingPositions idp acts w) =
        [\<lparr>p_protocol = ''FLUXBEAM'', p_type = ''Trading'', p_tokenA = None,
          p_value = Some (double_sum (map value_or_zero
                       (filter (newer_than_a_day (clock w (clock_calls w)))
                          (trading_candidates idp acts)))),
          p_apy = None,
          p_timestamp = Max (set (map a_timestamp
                       (filter (newer_than_a_day (clock w (clock_calls w)))
                          (trading_candidates idp acts))))\<rparr>])
   \<and> (filter (newer_than_a_day (clock w (clock_calls w))) (trading_candidates idp acts) = [] \<longrightarrow>
        fst (processTradingPositions idp acts w) = [])
   \<and> ((\<forall>a \<in> set (trading_candidates idp acts). a_timestamp a \<le> clock w (clock_calls w)) \<longrightarrow>
        filter (newer_than_a_day (clock w (clock_calls w))) (trading_candidates idp acts)
          = filter (within_last_24_hours (clock w (clock_calls w))) (trading_candidates idp acts))"
proof -
  let ?now = "clock w (clock_calls w)"
  let ?recent = "filter (newer_than_a_day ?now) (trading_candidates idp acts)"
  have one: "fst (processTradingPositions idp acts w) =
        [\<lparr>p_protocol = ''FLUXBEAM'', p_type = ''Trading'', p_tokenA = None,
          p_value = Some (double_sum (map value_or_zero ?recent)), p_apy = None,
          p_timestamp = Max (set (map a_timestamp ?recent))\<rparr>]"
    if "?recent \<noteq> []"
  proof -
    from that obtain first others where c: "?recent = first # others"
      by (cases ?recent) auto
    show ?thesis
      unfolding trading_positions_recent c
      by (simp only: calculateTotalValue_sum fold_max_Max list.case)
  qed
  have none: "fst (processTradingPositions idp acts w) = []" if "?recent = []"
    using that by (simp add: trading_positions_recent)
  have same: "?recent = filter (within_last_24_hours ?now) (trading_candidates idp acts)"
    if "\<forall>a \<in> set (trading_candidates idp acts). a_timestamp a \<le> ?now"
    using that
    by (intro filter_cong refl)
       (auto simp: newer_than_a_day_def within_last_24_hours_def ONE_DAY_MS_def)
  from one none same show ?thesis by blast
qed

theorem trading_pass_aggregates_recent_witness:
  "filter (newer_than_a_day (clock example_world (clock_calls example_world)))
      (trading_candidates identifyProtocol trading_example)
     = [example_activity Swap 99990000, fluxbeam_activity]
   \<and> filter (within_last_24_hours (clock example_world (clock_calls example_world)))
      (trading_candidates identifyProtocol trading_example)
     = [example_activity Swap 99990000, fluxbeam_activity]
   \<and> fst (processTradingPositions identifyProtocol trading_example example_world)
     = [\<lparr>p_protocol = ''FLUXBEAM'', p_type = ''Trading'', p_tokenA = None,
         p_value = Some (Fin 2), p_apy = None, p_timestamp = 99995000\<rparr>]
   \<and> filter (newer_than_a_day (clock example_world (clock_calls example_world)))
      (trading_candidates identifyProtocol [example_activity Swap 1000]) = []
   \<and> fst (processTradingPositions identifyProtocol [example_activity Swap 1000] example_world) = []"
proof -
  have r1: "filter (newer_than_a_day (clock example_world (clock_calls example_world)))
      (trading_candidates identifyProtocol trading_example)
     = [example_activity Swap 99990000, fluxbeam_activity]"
    by (simp add: trading_candidates_def trading_example_def newer_than_a_day_def
        ONE_DAY_MS_def example_world_def example_activity_def fluxbeam_activity_def
        identify_fluxbeam identify_absent)
  have r2: "filter (newer_than_a_day (clock example_world (clock_calls example_world)))
      (trading_candidates identifyProtocol [example_activity Swap 1000]) = []"
    by (simp add: trading_candidates_def newer_than_a_day_def ONE_DAY_MS_def
        example_world_def example_activity_def)
  have past: "\<forall>a \<in> set (trading_candidates identifyProtocol trading_example).
                a_timestamp a \<le> clock example_world (clock_calls example_world)"
    by (simp add: trading_candidates_def trading_example_def example_world_def
        example_activity_def fluxbeam_activity_def identify_fluxbeam identify_absent)
  have v: "double_sum (map value_or_zero [example_activity Swap 99990000, fluxbeam_activity])
             = Fin 2"
    by (simp add: double_sum_def value_or_zero_def example_activity_def fluxbeam_activity_def
        double_unfold)
  from r1 have ne: "filter (newer_than_a_day (clock example_world (clock_calls example_world)))
      (trading_candidates identifyProtocol trading_example) \<noteq> []" by simp
  from trading_pass_aggregates_recent[of example_world identifyProtocol trading_example] ne
  have "fst (processTradingPositions identifyProtocol trading_example example_world) =
        [\<lparr>p_protocol = ''FLUXBEAM'', p_type = ''Trading'', p_tokenA = None,
          p_value = Some (double_sum (map value_or_zero
                       (filter (newer_than_a_day (clock example_world (clock_calls example_world)))
                          (trading_candidates identifyProtocol trading_example)))),
          p_apy = None,
          p_timestamp = Max (set (map a_timestamp
                       (filter (newer_than_a_day (clock example_world (clock_calls example_world)))
                          (trading_candidates identifyProtocol trading_example))))\<rparr>]"
    by blast
  then have a: "fst (processTradingPositions identifyProtocol trading_example example_world)
     = [\<lparr>p_protocol = ''FLUXBEAM'', p_type = ''Trading'', p_tokenA = None,
         p_value = Some (Fin 2), p_apy = None, p_timestamp = 99995000\<rparr>]"
    unfolding r1 by (simp only: v) (simp add: example_activity_def fluxbeam_activity_def)
  from trading_pass_aggregates_recent[of example_world identifyProtocol trading_example] past
  have "filter (newer_than_a_day (clock example_world (clock_calls example_world)))
          (trading_candidates identifyProtocol trading_example)
        = filter (within_last_24_hours (clock example_world (clock_calls example_world)))
          (trading_candidates identifyProtocol trading_example)"
    by blast
  with r1 have b: "filter (within_last_24_hours (clock example_world (clock_calls example_world)))
      (trading_candidates identifyProtocol trading_example)
     = [example_activity Swap 99990000, fluxbeam_activity]" by simp
  from trading_pass_aggregates_recent[of example_world identifyProtocol
      "[example_activity Swap 1000]"] r2
  have c: "fst (processTradingPositions identifyProtocol [example_activity Swap 1000]
             example_world) = []"
    by blast
  from r1 b a r2 c show ?thesis by blast
qed

text \<open>
  Read as the last 24 hours before the evaluation time, the claim fails at a swap stamped
  after that time: no activity lies within the last 24 hours, and the pass returns a
  position.
\<close>

theorem future_swap_counterexample:
  "clock example_world (clock_calls example_world) = 100000000
   \<and> a_timestamp (example_activity Swap 200000000) = 200000000
   \<and> filter (within_last_24_hours (clock example_world (clock_calls example_world)))
        (trading_candidates identifyProtocol [example_activity Swap 200000000]) = []
   \<and> fst (processTradingPositions identifyProtocol [example_activity Swap 200000000] example_world)
       = [\<lparr>p_protocol = ''FLUXBEAM'', p_type = ''Trading'', p_tokenA = None,
           p_value = Some (Fin 2), p_apy = None, p_timestamp = 200000000\<rparr>]"
  by (simp add: example_world_def example_activity_def within_last_24_hours_def
      trading_candidates_def processTradingPositions_def Date_now_def ONE_DAY_MS_def
      calculateTotalValue_def value_or_zero_def double_unfold)

text \<open>
  C8. With random numbers from the unit interval: a cache entry that holds one successful
  staking activity and no position list yields a result with exactly one position of type
  \<open>Staking\<close>, whose APY lies between 5 and 8 (it is the whole result unless the program
  of the activity resolves to \<open>FLUXBEAM\<close>); and every position of the staking pass has
  type \<open>Staking\<close> and an APY between 5 and 8.
\<close>

theorem staking_apy_in_range:
  assumes "unit_random w"
  shows "(cache w publicKey = Some \<lparr>ce_activities = Some [a], ce_defiPositions = None, ce_profile = prof\<rparr>
            \<and> a_type a = Staking \<and> a_success a \<longrightarrow>
          (\<exists>pos. filter (\<lambda>p. p_type p = ''Staking'') (fst (analyzeDeFiPositions idp publicKey w)) = [pos]
                 \<and> apy_within 5 8 pos
                 \<and> (idp (a_programId a) \<noteq> ''FLUXBEAM'' \<longrightarrow>
                      fst (analyzeDeFiPositions idp publicKey w) = [pos])))
         \<and> (\<forall>p \<in> set (fst (processStakingPositions idp acts w)).
               p_type p = ''Staking'' \<and> apy_within 5 8 p)"
proof -
  have general: "\<forall>p \<in> set (fst (processStakingPositions idp acts w)).
               p_type p = ''Staking'' \<and> apy_within 5 8 p"
    using stakingPositions_apy[OF assms] by (simp add: processStakingPositions_def)
  have single: "\<exists>pos. filter (\<lambda>p. p_type p = ''Staking'') (fst (analyzeDeFiPositions idp publicKey w)) = [pos]
                 \<and> apy_within 5 8 pos
                 \<and> (idp (a_programId a) \<noteq> ''FLUXBEAM'' \<longrightarrow>
                      fst (analyzeDeFiPositions idp publicKey w) = [pos])"
    if c: "cache w publicKey = Some \<lparr>ce_activities = Some [a], ce_defiPositions = None, ce_profile = prof\<rparr>"
      and t: "a_type a = Staking" and s: "a_success a"
  proof -
    let ?pos = "\<lparr>p_protocol = idp (a_programId a), p_type = ''Staking'',
           p_tokenA = Some (a_token a), p_value = a_value a,
           p_apy = Some (fst (generateRandomApy APY_RANGES_STAKING w)), p_timestamp = a_timestamp a\<rparr>"
    let ?w1 = "snd (generateRandomApy APY_RANGES_STAKING w)"
    have res: "fst (analyzeDeFiPositions idp publicKey w)
                 = ?pos # fst (processTradingPositions idp [a] ?w1)"
      using c t s
      by (simp add: analyzeDeFiPositions_def walletCache_get_def Let_def split_beta
          processStakingPositions_def getActivitiesByType_def processLendingPositions_def
          processLiquidityPositions_def)
    have tr: "filter (\<lambda>p. p_type p = ''Staking'') (fst (processTradingPositions idp [a] ?w1)) = []"
      by (auto simp: filter_empty_conv dest: trading_positions_type)
    have nf: "fst (processTradingPositions idp [a] ?w1) = []" if "idp (a_programId a) \<noteq> ''FLUXBEAM''"
      using that t by (simp add: processTradingPositions_def)
    have "apy_within 5 8 ?pos"
      using generateRandomApy_staking_bounds[OF assms] by (simp add: apy_within_def)
    with res tr nf show ?thesis by simp
  qed
  from general single show ?thesis by blast
qed


theorem staking_apy_in_range_witness:
  "unit_random staking_world
   \<and> cache staking_world ''wallet''
       = Some \<lparr>ce_activities = Some [marinade_activity], ce_defiPositions = None, ce_profile = None\<rparr>
   \<and> fst (analyzeDeFiPositions identifyProtocol ''wallet'' staking_world)
       = [\<lparr>p_protocol = ''MARINADE_STAKING'', p_type = ''Staking'', p_tokenA = Some ''SOL'',
           p_value = Some (Fin 10), p_apy = Some (13 / 2), p_timestamp = 99990000\<rparr>]
   \<and> apy_within 5 8 \<lparr>p_protocol = ''MARINADE_STAKING'', p_type = ''Staking'', p_tokenA = Some ''SOL'',
           p_value = Some (Fin 10), p_apy = Some (13 / 2), p_timestamp = 99990000\<rparr>"
proof -
  have u: "unit_random staking_world"
    by (simp add: unit_random_def staking_world_def example_world_def)
  have c: "cache staking_world ''wallet''
       = Some \<lparr>ce_activities = Some [marinade_activity], ce_defiPositions = None, ce_profile = None\<rparr>"
    by (simp add: staking_world_def example_world_def)
  have t: "a_type marinade_activity = Staking" "a_success marinade_activity"
    "identifyProtocol (a_programId marinade_activity) \<noteq> ''FLUXBEAM''"
    by (simp_all add: marinade_activity_def identify_marinade)
  from staking_apy_in_range[OF u, of "''wallet''" marinade_activity None identifyProtocol] c t
  obtain pos where p: "fst (analyzeDeFiPositions identifyProtocol ''wallet'' staking_world) = [pos]"
    "apy_within 5 8 pos" by blast
  have run: "fst (analyzeDeFiPositions identifyProtocol ''wallet'' staking_world)
       = [\<lparr>p_protocol = ''MARINADE_STAKING'', p_type = ''Staking'', p_tokenA = Some ''SOL'',
           p_value = Some (Fin 10), p_apy = Some (13 / 2), p_timestamp = 99990000\<rparr>]"
    by (simp add: analyzeDeFiPositions_def walletCache_get_def staking_world_def
        example_world_def marinade_activity_def identify_marinade Let_def split_beta
        processStakingPositions_def getActivitiesByType_def processLendingPositions_def
        processLiquidityPositions_def processTradingPositions_def generateRandomApy_def
        Math_random_def APY_RANGES_STAKING_def)
  with p u c show ?thesis by simp
qed

section \<open>Properties of the pattern analyzer on a store\<close>

lemma those_map_Some: "(those (map f xs) = Some ys) = (map f xs = map Some ys)"
proof (induction xs arbitrary: ys)
  case Nil
  show ?case by auto
next
  case (Cons x xs)
  show ?case
  proof (cases "f x")
    case None
    then show ?thesis by (cases ys) auto
  next
    case (Some v)
    then show ?thesis using Cons[of "tl ys"]
      by (cases ys) (auto split: option.splits)
  qed
qed

lemma preserves_refl: "preserves st st"
  by (simp add: preserves_def)

lemma preserves_trans: "preserves st st1 \<Longrightarrow> preserves st1 st2 \<Longrightarrow> preserves st st2"
  by (auto simp: preserves_def)

lemma new_array_preserves: "preserves st (snd (new_array elems st))"
  by (simp add: new_array_def preserves_def)

lemma new_array_ok: "store_ok st \<Longrightarrow> store_ok (snd (new_array elems st))"
  by (auto simp: new_array_def store_ok_def less_Suc_eq)

lemma group_inv_distinct:
  assumes "group_inv st0 elems k groups st" and "groups t = Some g" and "groups u = Some g"
  shows "t = u"
proof -
  from assms have a: "filter (has_type st0 t) (take k elems) \<noteq> []"
    and b: "filter (has_type st0 t) (take k elems) = filter (has_type st0 u) (take k elems)"
    unfolding group_inv_def
    by (metis (mono_tags, lifting) option.simps(5), metis (mono_tags, lifting) option.simps(5) option.inject)
  from a obtain r where r: "r \<in> set (filter (has_type st0 t) (take k elems))"
    by (cases "filter (has_type st0 t) (take k elems)") auto
  then have "r \<in> set (filter (has_type st0 u) (take k elems))" using b by simp
  with r have "has_type st0 t r" "has_type st0 u r" by simp_all
  then show ?thesis by (auto simp: has_type_def split: option.splits)
qed


lemma group_inv_lookup:
  assumes "group_inv st0 elems k groups st"
  shows "groups t = None \<Longrightarrow> filter (has_type st0 t) (take k elems) = []"
    and "groups t = Some g \<Longrightarrow> next_ref st0 \<le> g \<and> filter (has_type st0 t) (take k elems) \<noteq> []
           \<and> arrays st g = Some (filter (has_type st0 t) (take k elems))"
proof -
  from assms have "case groups t of
                None \<Rightarrow> filter (has_type st0 t) (take k elems) = []
              | Some g \<Rightarrow> next_ref st0 \<le> g
                         \<and> filter (has_type st0 t) (take k elems) \<noteq> []
                         \<and> arrays st g = Some (filter (has_type st0 t) (take k elems))"
    unfolding group_inv_def by blast
  then show "groups t = None \<Longrightarrow> filter (has_type st0 t) (take k elems) = []"
    and "groups t = Some g \<Longrightarrow> next_ref st0 \<le> g \<and> filter (has_type st0 t) (take k elems) \<noteq> []
           \<and> arrays st g = Some (filter (has_type st0 t) (take k elems))"
    by simp_all
qed

lemma filter_take_Suc:
  assumes "k < length elems"
  shows "filter P (take (Suc k) elems) =
           (if P (elems ! k) then filter P (take k elems) @ [elems ! k] else filter P (take k elems))"
  using assms by (simp add: take_Suc_conv_app_nth)

lemma group_step_inv:
  assumes inv: "group_inv st0 elems k groups st"
    and k: "k < length elems"
    and obj: "objects st0 (elems ! k) = Some obj"
  shows "\<exists>groups1 st1. st_group_step (elems ! k) groups st = Some (groups1, st1)
           \<and> group_inv st0 elems (Suc k) groups1 st1"
proof -
  let ?t = "a_type obj"
  let ?r = "elems ! k"
  from inv have pres: "preserves st0 st" and ok: "store_ok st"
    by (simp_all add: group_inv_def)
  from pres have o: "objects st = objects st0" by (simp add: preserves_def)
  have ht: "has_type st0 t ?r = (t = ?t)" for t
    using obj by (auto simp: has_type_def)
  show ?thesis
  proof (cases "groups ?t")
    case None
    let ?g = "next_ref st"
    let ?st1 = "st\<lparr>arrays := (arrays st)(?g \<mapsto> [?r]), next_ref := ?g + 1\<rparr>"
    have step: "st_group_step ?r groups st = Some (groups(?t \<mapsto> ?g), ?st1)"
      using None obj o
      by (simp add: st_group_step_def new_array_def array_push_def Let_def)
    have pres1: "preserves st0 ?st1"
      using pres by (auto simp: preserves_def)
    have ok1: "store_ok ?st1"
      using ok by (auto simp: store_ok_def less_Suc_eq)
    have fresh: "g \<noteq> ?g" if "groups u = Some g" for u g
    proof -
      from group_inv_lookup(2)[OF inv that] have "arrays st g \<noteq> None" by simp
      with ok have "g < next_ref st" by (simp add: store_ok_def)
      then show ?thesis by simp
    qed
    have grp: "case (groups(?t \<mapsto> ?g)) u of
                None \<Rightarrow> filter (has_type st0 u) (take (Suc k) elems) = []
              | Some g \<Rightarrow> next_ref st0 \<le> g
                         \<and> filter (has_type st0 u) (take (Suc k) elems) \<noteq> []
                         \<and> arrays ?st1 g = Some (filter (has_type st0 u) (take (Suc k) elems))" for u
    proof (cases "u = ?t")
      case True
      have "filter (has_type st0 ?t) (take k elems) = []"
        using group_inv_lookup(1)[OF inv None] .
      moreover have "next_ref st0 \<le> ?g" using pres by (simp add: preserves_def)
      ultimately show ?thesis
        using True by (simp add: filter_take_Suc[OF k] ht)
    next
      case False
      show ?thesis
      proof (cases "groups u")
        case None
        then show ?thesis
          using False group_inv_lookup(1)[OF inv None] by (simp add: filter_take_Suc[OF k] ht)
      next
        case (Some g)
        then show ?thesis
          using False group_inv_lookup(2)[OF inv Some] fresh[OF Some]
          by (simp add: filter_take_Suc[OF k] ht)
      qed
    qed
    have "group_inv st0 elems (Suc k) (groups(?t \<mapsto> ?g)) ?st1"
      unfolding group_inv_def using pres1 ok1 grp by blast
    with step show ?thesis by blast
  next
    case (Some g)
    from group_inv_lookup(2)[OF inv Some]
    have g0: "next_ref st0 \<le> g"
      and ga: "arrays st g = Some (filter (has_type st0 ?t) (take k elems))" by simp_all
    let ?st1 = "st\<lparr>arrays := (arrays st)(g \<mapsto> filter (has_type st0 ?t) (take k elems) @ [?r])\<rparr>"
    have step: "st_group_step ?r groups st = Some (groups, ?st1)"
      using Some obj o ga
      by (simp add: st_group_step_def array_push_def Let_def)
    have pres1: "preserves st0 ?st1"
      using pres g0 by (auto simp: preserves_def)
    have ok1: "store_ok ?st1"
      using ok ga by (auto simp: store_ok_def)
    have grp: "case groups u of
                None \<Rightarrow> filter (has_type st0 u) (take (Suc k) elems) = []
              | Some g \<Rightarrow> next_ref st0 \<le> g
                         \<and> filter (has_type st0 u) (take (Suc k) elems) \<noteq> []
                         \<and> arrays ?st1 g = Some (filter (has_type st0 u) (take (Suc k) elems))" for u
    proof (cases "u = ?t")
      case True
      then show ?thesis using Some g0 by (simp add: filter_take_Suc[OF k] ht)
    next
      case False
      show ?thesis
      proof (cases "groups u")
        case None
        then show ?thesis
          using False group_inv_lookup(1)[OF inv None] by (simp add: filter_take_Suc[OF k] ht)
      next
        case other: (Some g')
        have "g' \<noteq> g" using group_inv_distinct[OF inv other] Some False by auto
        then show ?thesis
          using False other group_inv_lookup(2)[OF inv other]
          by (simp add: filter_take_Suc[OF k] ht)
      qed
    qed
    have "group_inv st0 elems (Suc k) groups ?st1"
      unfolding group_inv_def using pres1 ok1 grp by blast
    with step show ?thesis by blast
  qed
qed


lemma reduce_groups_inv:
  assumes "group_inv st0 elems k groups st"
    and "k \<le> length elems"
    and "arrays st0 activities = Some elems"
    and "activities < next_ref st0"
    and "\<forall>r \<in> set elems. objects st0 r \<noteq> None"
  shows "\<exists>groups1 st1. st_reduce_groups activities k (length elems) groups st = Some (groups1, st1)
           \<and> group_inv st0 elems (length elems) groups1 st1"
  using assms
proof (induction "length elems - k" arbitrary: k groups st)
  case 0
  then have "k = length elems" by simp
  with "0.prems"(1) show ?case
    by (subst st_reduce_groups.simps) simp
next
  case (Suc n)
  then have k: "k < length elems" by simp
  from Suc.prems(1) have "preserves st0 st" by (simp add: group_inv_def)
  with Suc.prems(3,4) have arr: "arrays st activities = Some elems"
    by (simp add: preserves_def)
  from Suc.prems(5) k obtain obj where obj: "objects st0 (elems ! k) = Some obj"
    by (metis not_None_eq nth_mem)
  from group_step_inv[OF Suc.prems(1) k obj]
  obtain groups1 st1 where step: "st_group_step (elems ! k) groups st = Some (groups1, st1)"
    and inv1: "group_inv st0 elems (Suc k) groups1 st1" by blast
  have "n = length elems - Suc k" using Suc.hyps(2) by simp
  from Suc.hyps(1)[OF this inv1 _ Suc.prems(3,4,5)] k
  obtain groups2 st2 where
    "st_reduce_groups activities (Suc k) (length elems) groups1 st1 = Some (groups2, st2)"
    "group_inv st0 elems (length elems) groups2 st2" by auto
  then show ?case
    using k arr step by (subst st_reduce_groups.simps) simp
qed

lemma group_inv_init: "store_ok st \<Longrightarrow> group_inv st elems 0 Map.empty st"
  by (simp add: group_inv_def preserves_refl)

lemma st_groupActivitiesByType_inv:
  assumes "store_ok st"
    and "arrays st activities = Some elems"
    and "\<forall>r \<in> set elems. objects st r \<noteq> None"
  shows "\<exists>groups1 st1. st_groupActivitiesByType activities st = Some (groups1, st1)
           \<and> group_inv st elems (length elems) groups1 st1"
proof -
  from assms(1,2) have "activities < next_ref st" by (simp add: store_ok_def)
  from reduce_groups_inv[OF group_inv_init[OF assms(1)] _ assms(2) this assms(3)]
  show ?thesis using assms(2) by (simp add: st_groupActivitiesByType_def)
qed

lemma map_objects_defined:
  assumes "map f elems = map Some acts"
  shows "\<forall>r \<in> set elems. f r \<noteq> None"
proof
  fix r assume "r \<in> set elems"
  then have "f r \<in> set (map f elems)" by simp
  with assms show "f r \<noteq> None" by auto
qed

lemma filter_has_type:
  assumes "map (objects st) elems = map Some acts"
  shows "map (objects st) (filter (has_type st t) elems)
           = map Some (filter (\<lambda>a. a_type a = t) acts)"
  using assms
proof (induction elems arbitrary: acts)
  case Nil
  then show ?case by simp
next
  case (Cons r elems)
  then obtain a rest where acts: "acts = a # rest" by (cases acts) auto
  with Cons.prems have "objects st r = Some a" "map (objects st) elems = map Some rest"
    by simp_all
  with Cons.IH[of rest] acts show ?case by (simp add: has_type_def)
qed

lemma insort_key_map:
  "map g (insort_key (\<lambda>x. f (g x)) x xs) = insort_key f (g x) (map g xs)"
  by (induction xs) simp_all

lemma sort_key_map:
  "map g (sort_key (\<lambda>x. f (g x)) xs) = sort_key f (map g xs)"
  by (induction xs) (simp_all add: insort_key_map)

lemma zip_deref:
  assumes "map f xs = map Some ys" and "p \<in> set (zip xs ys)"
  shows "f (fst p) = Some (snd p)"
proof -
  from assms(2) obtain i where i: "i < length xs" "i < length ys" "xs ! i = fst p" "ys ! i = snd p"
    by (auto simp: set_zip)
  from assms(1) i(1) have "f (xs ! i) = map Some ys ! i"
    by (metis nth_map)
  with i show ?thesis by simp
qed

lemma sorted_pairs_deref:
  assumes "map f xs = map Some ys"
  shows "map f (map fst (sort_key k (zip xs ys))) = map Some (map snd (sort_key k (zip xs ys)))"
  using zip_deref[OF assms] by simp

lemma sorted_pairs_snd:
  assumes "length xs = length ys"
  shows "map snd (sort_key (\<lambda>p. - a_timestamp (snd p)) (zip xs ys)) = sortedSwaps ys"
  using sort_key_map[of snd "\<lambda>a. - a_timestamp a" "zip xs ys"] assms
  by (simp add: sortedSwaps_def)


lemma st_detectDCAPattern_refines:
  assumes ok: "store_ok st" and h: "holds_activities st swaps acts"
  shows "\<exists>st1. st_detectDCAPattern swaps patterns st = Some (detectDCAPattern acts patterns, st1)
           \<and> preserves st st1 \<and> store_ok st1"
proof -
  from h obtain elems where arr: "arrays st swaps = Some elems"
    and m: "map (objects st) elems = map Some acts"
    by (auto simp: holds_activities_def split: option.splits)
  from m have len: "length elems = length acts"
    by (metis length_map)
  show ?thesis
  proof (cases "length acts < MINIMUM_SWAPS")
    case True
    then show ?thesis
      using arr len ok by (simp add: st_detectDCAPattern_def detectDCAPattern_def preserves_refl)
  next
    case False
    define c where "c = next_ref st"
    define sorted_pairs where
      "sorted_pairs = sort_key (\<lambda>p. - a_timestamp (snd p)) (zip elems acts)"
    define st1 where "st1 = st\<lparr>arrays := (arrays st)(c \<mapsto> elems), next_ref := c + 1\<rparr>"
    define st2 where "st2 = st1\<lparr>arrays := (arrays st1)(c \<mapsto> map fst sorted_pairs)\<rparr>"
    have na: "new_array elems st = (c, st1)" by (simp add: new_array_def c_def st1_def)
    have th: "those (map (objects st) elems) = Some acts"
      using m by (simp add: those_map_Some)
    have srt: "st_sort_newest_first c st1 = Some st2"
      using th by (simp add: st_sort_newest_first_def st1_def st2_def sorted_pairs_def)
    have "map (objects st) (map fst sorted_pairs) = map Some (map snd sorted_pairs)"
      unfolding sorted_pairs_def by (rule sorted_pairs_deref[OF m])
    also have "map snd sorted_pairs = sortedSwaps acts"
      unfolding sorted_pairs_def by (rule sorted_pairs_snd[OF len])
    finally have der: "st_deref c st2 = Some (sortedSwaps acts)"
      by (simp add: st_deref_def those_map_Some st2_def st1_def)
    have pres: "preserves st st2" by (simp add: preserves_def st2_def st1_def c_def)
    have ok2: "store_ok st2"
      using ok by (auto simp: store_ok_def less_Suc_eq st2_def st1_def c_def)
    have "st_detectDCAPattern swaps patterns st = Some (detectDCAPattern acts patterns, st2)"
      using False arr len
      by (simp add: st_detectDCAPattern_def na srt der detectDCAPattern_def
          variationCoefficient_def Let_def split_beta)
    with pres ok2 show ?thesis by blast
  qed
qed


lemma group_content:
  assumes inv: "group_inv st elems (length elems) groups1 stg"
    and m: "map (objects st) elems = map Some acts"
  shows "groups1 t = None \<Longrightarrow> filter (\<lambda>a. a_type a = t) acts = []"
    and "groups1 t = Some g \<Longrightarrow>
           holds_activities stg g (filter (\<lambda>a. a_type a = t) acts) \<and> g < next_ref stg"
proof -
  have f: "map (objects st) (filter (has_type st t) elems)
             = map Some (filter (\<lambda>a. a_type a = t) acts)"
    by (rule filter_has_type[OF m])
  show "filter (\<lambda>a. a_type a = t) acts = []" if "groups1 t = None"
    using group_inv_lookup(1)[OF inv that] f by simp
  show "holds_activities stg g (filter (\<lambda>a. a_type a = t) acts) \<and> g < next_ref stg"
    if "groups1 t = Some g"
  proof -
    from group_inv_lookup(2)[OF inv that]
    have ga: "arrays stg g = Some (filter (has_type st t) elems)" by simp
    from inv have "objects stg = objects st" "store_ok stg"
      by (simp_all add: group_inv_def preserves_def)
    with ga f show ?thesis by (auto simp: holds_activities_def store_ok_def)
  qed
qed

lemma holds_activities_preserved:
  assumes "holds_activities st arr acts" and "arr < next_ref st" and "preserves st st1"
  shows "holds_activities st1 arr acts"
  using assms by (auto simp: holds_activities_def preserves_def split: option.splits)

lemma holds_activities_length:
  assumes "holds_activities st arr acts"
  shows "\<exists>elems. arrays st arr = Some elems \<and> length elems = length acts"
proof -
  from assms obtain elems where "arrays st arr = Some elems"
    "map (objects st) elems = map Some acts"
    by (auto simp: holds_activities_def split: option.splits)
  then show ?thesis by (metis length_map)
qed

lemma group_checks:
  assumes inv: "group_inv st elems (length elems) groups1 stg"
    and m: "map (objects st) elems = map Some acts"
    and pres: "preserves stg st3"
  shows "st_hasActivities (groups1 t) st3 = (filter (\<lambda>a. a_type a = t) acts \<noteq> [])"
    and "0 < n \<Longrightarrow> st_hasMinimumActivities (groups1 t) n st3
           = (n \<le> length (filter (\<lambda>a. a_type a = t) acts))"
proof -
  have both: "st_hasActivities (groups1 t) st3 = (filter (\<lambda>a. a_type a = t) acts \<noteq> [])
     \<and> (0 < n \<longrightarrow> st_hasMinimumActivities (groups1 t) n st3
           = (n \<le> length (filter (\<lambda>a. a_type a = t) acts)))"
  proof (cases "groups1 t")
    case None
    then show ?thesis
      using group_content(1)[OF inv m None]
      by (simp add: st_hasActivities_def st_hasMinimumActivities_def)
  next
    case (Some g)
    from group_content(2)[OF inv m Some]
    have "holds_activities st3 g (filter (\<lambda>a. a_type a = t) acts)"
      using holds_activities_preserved[OF _ _ pres] by blast
    from holds_activities_length[OF this] Some show ?thesis
      by (auto simp: st_hasActivities_def st_hasMinimumActivities_def)
  qed
  from both show "st_hasActivities (groups1 t) st3 = (filter (\<lambda>a. a_type a = t) acts \<noteq> [])"
    by simp
  from both show "0 < n \<Longrightarrow> st_hasMinimumActivities (groups1 t) n st3
           = (n \<le> length (filter (\<lambda>a. a_type a = t) acts))" by simp
qed

lemma st_analyze_refines:
  assumes ok: "store_ok st" and h: "holds_activities st activities acts"
  shows "\<exists>st1. st_analyzeTransactionPatterns activities st
                 = Some (analyzeTransactionPatterns acts, st1)
           \<and> preserves st st1 \<and> store_ok st1"
proof -
  from h obtain elems where arr: "arrays st activities = Some elems"
    and m: "map (objects st) elems = map Some acts"
    by (auto simp: holds_activities_def split: option.splits)
  from m have len: "length elems = length acts"
    by (metis length_map)
  show ?thesis
  proof (cases "length acts < MINIMUM_TRANSACTIONS")
    case True
    then show ?thesis
      using arr len ok
      by (simp add: st_analyzeTransactionPatterns_def analyzeTransactionPatterns_def
          preserves_refl)
  next
    case False
    then have five: "5 \<le> length acts" by (simp add: MINIMUM_TRANSACTIONS_def)
    from st_groupActivitiesByType_inv[OF ok arr map_objects_defined[OF m]]
    obtain groups1 stg where grp: "st_groupActivitiesByType activities st = Some (groups1, stg)"
      and inv: "group_inv st elems (length elems) groups1 stg" by blast
    from inv have pres_g: "preserves st stg" and ok_g: "store_ok stg"
      by (simp_all add: group_inv_def)
    let ?swaps = "filter (\<lambda>a. a_type a = Swap) acts"
    obtain swaps st2 where sw:
      "(case groups1 Swap of Some g \<Rightarrow> (g, stg) | None \<Rightarrow> new_array [] stg) = (swaps, st2)"
      and hs: "holds_activities st2 swaps ?swaps"
      and pres2: "preserves stg st2" and ok2: "store_ok st2"
    proof (cases "groups1 Swap")
      case None
      have "holds_activities (snd (new_array [] stg)) (fst (new_array [] stg)) ?swaps"
        using group_content(1)[OF inv m None]
        by (simp add: holds_activities_def new_array_def)
      then show ?thesis
        using that[of "fst (new_array [] stg)" "snd (new_array [] stg)"] None
          new_array_preserves[of stg "[]"] new_array_ok[OF ok_g, of "[]"]
        by simp
    next
      case (Some g)
      then show ?thesis
        using that[of g stg] group_content(2)[OF inv m Some] ok_g preserves_refl[of stg]
        by simp
    qed
    from st_detectDCAPattern_refines[OF ok2 hs, of "[]"]
    obtain st3 where det: "st_detectDCAPattern swaps [] st2
                             = Some (detectDCAPattern ?swaps [], st3)"
      and pres3: "preserves st2 st3" and ok3: "store_ok st3" by blast
    have pres_g3: "preserves stg st3" using pres2 pres3 by (rule preserves_trans)
    have chk: "st_hasActivities (groups1 Lending) st3
                 = (filter (\<lambda>a. a_type a = Lending) acts \<noteq> [])"
      "st_hasMinimumActivities (groups1 Staking) MINIMUM_STAKING_ACTIONS st3
                 = (3 \<le> length (filter (\<lambda>a. a_type a = Staking) acts))"
      using group_checks[OF inv m pres_g3] by (simp_all add: MINIMUM_STAKING_ACTIONS_def)
    have "st_analyzeTransactionPatterns activities st
                 = Some (analyzeTransactionPatterns acts, st3)"
      using False arr len
      by (simp add: st_analyzeTransactionPatterns_def grp sw det chk analyze_sufficient[OF five]
          Let_def)
    moreover have "preserves st st3" using pres_g pres_g3 by (rule preserves_trans)
    ultimately show ?thesis using ok3 by blast
  qed
qed


lemma st_recommend_refines:
  assumes "holds_activities st activities acts"
  shows "st_recommendStrategies idp activities profile st
           = Some (recommendStrategies idp acts profile)"
proof -
  from assms obtain elems where arr: "arrays st activities = Some elems"
    and m: "map (objects st) elems = map Some acts"
    by (auto simp: holds_activities_def split: option.splits)
  from m have len: "length elems = length acts" by (metis length_map)
  from m have "those (map (objects st) elems) = Some acts" by (simp add: those_map_Some)
  then show ?thesis
    using arr len by (simp add: st_recommendStrategies_def recommendStrategies_def)
qed

lemma example_store_ok: "store_ok example_store"
  by (simp add: store_ok_def example_store_def)

lemma example_store_holds: "holds_activities example_store 0 dca_example"
  by (simp add: holds_activities_def example_store_def dca_example_def)

lemma other_store_ok: "store_ok other_store"
  by (simp add: store_ok_def other_store_def)

lemma other_store_holds: "holds_activities other_store 7 dca_example"
  by (simp add: holds_activities_def other_store_def dca_example_def)

lemma example_recommendation:
  "recommendStrategies identifyProtocol dca_example None
     = [STRATEGIES_SUPPLY_STABLECOINS, STRATEGIES_DIVERSIFIED_LP]"
  by (simp add: recommendStrategies_def dca_example_def example_activity_def
      extractUsedProtocols_def generateRecommendations_filter baseStrategies_simps
      shouldExclude_cases)

text \<open>
  C10. In a store that is in order, for an array that holds activities: the grouping, the
  DCA detector applied to the array, and \<open>analyzeTransactionPatterns\<close> each return, and
  leave the array with the same references in the same order and every activity object
  as it was; the analyzer changes no array that existed before the call. The detector
  sorts the copy it allocates, not the array it is given.
\<close>

theorem input_array_untouched:
  assumes "store_ok st" and "holds_activities st activities acts"
  shows "(\<exists>groups stg. st_groupActivitiesByType activities st = Some (groups, stg)
            \<and> arrays stg activities = arrays st activities \<and> objects stg = objects st)
         \<and> (\<exists>patterns1 st1. st_detectDCAPattern activities patterns st = Some (patterns1, st1)
            \<and> arrays st1 activities = arrays st activities \<and> objects st1 = objects st)
         \<and> (\<exists>result st1. st_analyzeTransactionPatterns activities st = Some (result, st1)
            \<and> arrays st1 activities = arrays st activities \<and> objects st1 = objects st
            \<and> preserves st st1 \<and> holds_activities st1 activities acts)"
proof -
  from assms(2) obtain elems where arr: "arrays st activities = Some elems"
    and m: "map (objects st) elems = map Some acts"
    by (auto simp: holds_activities_def split: option.splits)
  from arr assms(1) have below: "activities < next_ref st" by (simp add: store_ok_def)
  have keep: "arrays st1 activities = arrays st activities \<and> objects st1 = objects st"
    if "preserves st st1" for st1
    using that below by (simp add: preserves_def)
  from st_groupActivitiesByType_inv[OF assms(1) arr map_objects_defined[OF m]]
  obtain groups stg where "st_groupActivitiesByType activities st = Some (groups, stg)"
    "preserves st stg" by (auto simp: group_inv_def)
  then have g: "\<exists>groups stg. st_groupActivitiesByType activities st = Some (groups, stg)
            \<and> arrays stg activities = arrays st activities \<and> objects stg = objects st"
    using keep by blast
  from st_detectDCAPattern_refines[OF assms, of patterns]
  have d: "\<exists>patterns1 st1. st_detectDCAPattern activities patterns st = Some (patterns1, st1)
            \<and> arrays st1 activities = arrays st activities \<and> objects st1 = objects st"
    using keep by blast
  from st_analyze_refines[OF assms]
  obtain st1 where "st_analyzeTransactionPatterns activities st
                 = Some (analyzeTransactionPatterns acts, st1)" "preserves st st1" by blast
  then have a: "\<exists>result st1. st_analyzeTransactionPatterns activities st = Some (result, st1)
            \<and> arrays st1 activities = arrays st activities \<and> objects st1 = objects st
            \<and> preserves st st1 \<and> holds_activities st1 activities acts"
    using keep holds_activities_preserved[OF assms(2) below] by blast
  from g d a show ?thesis by blast
qed

theorem input_array_untouched_witness:
  "store_ok example_store \<and> holds_activities example_store 0 dca_example
   \<and> arrays example_store 0 = Some [0, 1, 2, 3, 4]
   \<and> (\<exists>result st1. st_analyzeTransactionPatterns 0 example_store = Some (result, st1)
         \<and> arrays st1 0 = Some [0, 1, 2, 3, 4] \<and> objects st1 = objects example_store)
   \<and> map_option (\<lambda>(p, st). (p, map (arrays st) [0, 1, 2, 3, 4], next_ref st))
        (st_analyzeTransactionPatterns 0 example_store)
       = Some ([PATTERNS_DCA],
               [Some [0, 1, 2, 3, 4], Some [0, 1, 3, 4], Some [2], Some [4, 3, 1, 0], None], 4)
   \<and> map_option (\<lambda>(p, st). (map (arrays st) [0, 1, 2], next_ref st))
        (st_detectDCAPattern 0 [] example_store)
       = Some ([Some [0, 1, 2, 3, 4], Some [4, 3, 2, 1, 0], None], 2)"
proof -
  have a0: "arrays example_store 0 = Some [0, 1, 2, 3, 4]"
    by (simp add: example_store_def)
  from input_array_untouched[OF example_store_ok example_store_holds, of "[]"]
  obtain result st1 where "st_analyzeTransactionPatterns 0 example_store = Some (result, st1)"
    "arrays st1 0 = arrays example_store 0" "objects st1 = objects example_store"
    by blast
  with a0
  have kept: "\<exists>result st1. st_analyzeTransactionPatterns 0 example_store = Some (result, st1)
         \<and> arrays st1 0 = Some [0, 1, 2, 3, 4] \<and> objects st1 = objects example_store"
    by simp
  have run: "map_option (\<lambda>(p, st). (p, map (arrays st) [0, 1, 2, 3, 4], next_ref st))
        (st_analyzeTransactionPatterns 0 example_store)
       = Some ([PATTERNS_DCA],
               [Some [0, 1, 2, 3, 4], Some [0, 1, 3, 4], Some [2], Some [4, 3, 1, 0], None], 4)"
    by (simp add: st_analyzeTransactionPatterns_def MINIMUM_TRANSACTIONS_def
        st_groupActivitiesByType_def example_store_def st_reduce_groups.simps
        st_group_step_def example_activity_def new_array_def array_push_def Let_def
        st_detectDCAPattern_def MINIMUM_SWAPS_def st_sort_newest_first_def st_deref_def
        split_beta calculateStats_def sum_values_def sum_sq_dev_def js_sub_def
        DCA_DEVIATION_THRESHOLD_def st_hasActivities_def st_hasMinimumActivities_def
        double_unfold)
  have det: "map_option (\<lambda>(p, st). (map (arrays st) [0, 1, 2], next_ref st))
        (st_detectDCAPattern 0 [] example_store)
       = Some ([Some [0, 1, 2, 3, 4], Some [4, 3, 2, 1, 0], None], 2)"
    by (simp add: st_detectDCAPattern_def example_store_def MINIMUM_SWAPS_def
        example_activity_def new_array_def st_sort_newest_first_def st_deref_def Let_def
        split_beta)
  from example_store_ok example_store_holds a0 kept run det show ?thesis by blast
qed

text \<open>
  C9. Two calls on arrays that hold the same list of activities return the same patterns,
  whatever the two stores and the two addresses are, and so does a second call in the
  store the first one leaves; the patterns are those of the analyzer applied to the list.
  The same holds of \<open>recommendStrategies\<close> with the same profile, for any function taken
  as \<open>identifyProtocol\<close>.
\<close>

theorem analyzers_deterministic:
  assumes "store_ok st1" and "holds_activities st1 a1 acts"
    and "store_ok st2" and "holds_activities st2 a2 acts"
  shows "map_option fst (st_analyzeTransactionPatterns a1 st1)
           = Some (analyzeTransactionPatterns acts)
         \<and> map_option fst (st_analyzeTransactionPatterns a2 st2)
           = map_option fst (st_analyzeTransactionPatterns a1 st1)
         \<and> (\<forall>result st3. st_analyzeTransactionPatterns a1 st1 = Some (result, st3) \<longrightarrow>
               map_option fst (st_analyzeTransactionPatterns a1 st3) = Some result
               \<and> st_recommendStrategies idp a1 profile st3
                   = st_recommendStrategies idp a1 profile st1)
         \<and> st_recommendStrategies idp a1 profile st1 = Some (recommendStrategies idp acts profile)
         \<and> st_recommendStrategies idp a2 profile st2 = st_recommendStrategies idp a1 profile st1"
proof -
  from st_analyze_refines[OF assms(1,2)]
  obtain st3 where r1: "st_analyzeTransactionPatterns a1 st1
                 = Some (analyzeTransactionPatterns acts, st3)"
    and p1: "preserves st1 st3" and ok3: "store_ok st3" by blast
  from st_analyze_refines[OF assms(3,4)]
  obtain st4 where r2: "st_analyzeTransactionPatterns a2 st2
                 = Some (analyzeTransactionPatterns acts, st4)" by blast
  from assms(1,2) have below: "a1 < next_ref st1"
    by (auto simp: holds_activities_def store_ok_def split: option.splits)
  have h3: "holds_activities st3 a1 acts"
    using holds_activities_preserved[OF assms(2) below p1] .
  from st_analyze_refines[OF ok3 h3]
  obtain st5 where r3: "st_analyzeTransactionPatterns a1 st3
                 = Some (analyzeTransactionPatterns acts, st5)" by blast
  show ?thesis
    using r1 r2 r3 st_recommend_refines[OF assms(2)] st_recommend_refines[OF assms(4)]
      st_recommend_refines[OF h3]
    by simp
qed

theorem analyzers_deterministic_witness:
  "store_ok example_store \<and> holds_activities example_store 0 dca_example
   \<and> store_ok other_store \<and> holds_activities other_store 7 dca_example
   \<and> map_option fst (st_analyzeTransactionPatterns 0 example_store) = Some [PATTERNS_DCA]
   \<and> map_option fst (st_analyzeTransactionPatterns 7 other_store) = Some [PATTERNS_DCA]
   \<and> st_recommendStrategies identifyProtocol 0 None example_store
       = Some [STRATEGIES_SUPPLY_STABLECOINS, STRATEGIES_DIVERSIFIED_LP]
   \<and> st_recommendStrategies identifyProtocol 7 None other_store
       = Some [STRATEGIES_SUPPLY_STABLECOINS, STRATEGIES_DIVERSIFIED_LP]"
  using analyzers_deterministic[OF example_store_ok example_store_holds other_store_ok
      other_store_holds, of identifyProtocol None]
    example_store_ok example_store_holds other_store_ok other_store_holds
  by (simp add: example_run example_recommendation)

end
